theory Spec2Isabelle
  imports Complex_Main "HOL-Library.Word"
begin

section \<open>Clique table: \<open>HighsCliqueTable::haveCommonClique\<close>\<close>

text \<open>
  \<open>struct CliqueVar { HighsUInt col : 31; HighsUInt val : 1; }\<close> (the build without
  \<open>HIGHSINT64\<close>): two bit-fields, a 31-bit column and a 1-bit value.
\<close>

record CliqueVar =
  col :: "31 word"
  val :: "1 word"

text \<open>\<open>CliqueVar complement() const { return CliqueVar(col, 1 - val); }\<close>: the
  constructor stores \<open>1 - val\<close> back into the 1-bit field.\<close>

definition complement :: "CliqueVar \<Rightarrow> CliqueVar" where
  "complement v = \<lparr>col = col v, val = 1 - val v\<rparr>"

text \<open>
  The table. Of its members only the query counter \<open>numNeighborhoodQueries\<close> and the
  stored clique sets matter here; the clique sets (splay trees, hash table, entry
  arrays) are kept as one value of a type variable.
\<close>

record 'cs HighsCliqueTable =
  numNeighborhoodQueries :: int
  cliquestore :: 'cs

text \<open>
  \<open>HighsInt findCommonCliqueId(int64_t& numQueries, CliqueVar v1, CliqueVar v2)\<close> is
  declared in the header and defined elsewhere: it is a parameter \<open>fcc\<close>, which
  receives the counter and the clique sets and returns the clique id together with
  the updated counter and clique sets (the lookup splays its trees).
\<close>

type_synonym 'cs findCommonCliqueId_impl =
  "int \<Rightarrow> CliqueVar \<Rightarrow> CliqueVar \<Rightarrow> 'cs \<Rightarrow> int \<times> int \<times> 'cs"

text \<open>\<open>findCommonCliqueId(v1, v2)\<close> forwards the table's own counter.\<close>

definition findCommonCliqueId ::
  "'cs findCommonCliqueId_impl \<Rightarrow> 'cs HighsCliqueTable \<Rightarrow> CliqueVar \<Rightarrow> CliqueVar
   \<Rightarrow> int \<times> 'cs HighsCliqueTable" where
  "findCommonCliqueId fcc T v1 v2 =
     (case fcc (numNeighborhoodQueries T) v1 v2 (cliquestore T) of
        (cid, nq, cs) \<Rightarrow> (cid, T\<lparr>numNeighborhoodQueries := nq, cliquestore := cs\<rparr>))"

text \<open>\<open>bool haveCommonClique(CliqueVar v1, CliqueVar v2)\<close>.\<close>

definition haveCommonClique ::
  "'cs findCommonCliqueId_impl \<Rightarrow> 'cs HighsCliqueTable \<Rightarrow> CliqueVar \<Rightarrow> CliqueVar
   \<Rightarrow> bool \<times> 'cs HighsCliqueTable" where
  "haveCommonClique fcc T v1 v2 =
     (if col v1 = col v2 then (False, T)
      else (case findCommonCliqueId fcc T v1 v2 of (cid, T') \<Rightarrow> (cid \<noteq> - 1, T')))"

text \<open>\<open>bool haveCommonClique(int64_t& numQueries, CliqueVar v1, CliqueVar v2)\<close>: the
  caller's counter is threaded through instead of the table's.\<close>

definition haveCommonClique_numQueries ::
  "'cs findCommonCliqueId_impl \<Rightarrow> int \<Rightarrow> 'cs HighsCliqueTable \<Rightarrow> CliqueVar \<Rightarrow> CliqueVar
   \<Rightarrow> bool \<times> int \<times> 'cs HighsCliqueTable" where
  "haveCommonClique_numQueries fcc numQueries T v1 v2 =
     (if col v1 = col v2 then (False, numQueries, T)
      else (case fcc numQueries v1 v2 (cliquestore T) of
              (cid, nq, cs) \<Rightarrow> (cid \<noteq> - 1, nq, T\<lparr>cliquestore := cs\<rparr>)))"


section \<open>QP solver: data model\<close>

subsection \<open>Doubles\<close>

text \<open>
  A \<open>double\<close> is a finite value, an infinity or a NaN. Comparisons, \<open>fabs\<close> and unary
  minus are exact on doubles, so they are defined here on the value a double denotes;
  rounded arithmetic (sums, products, quotients, norms) is never computed by the model
  but supplied by the environment below. \<open>Finite 0\<close> stands for both zeros, which
  compare equal.
\<close>

datatype double = Finite real | PInf | NInf | NaN

fun dlt :: "double \<Rightarrow> double \<Rightarrow> bool" where
  "dlt (Finite x) (Finite y) = (x < y)"
| "dlt (Finite x) PInf = True"
| "dlt NInf (Finite y) = True"
| "dlt NInf PInf = True"
| "dlt _ _ = False"

definition dgt :: "double \<Rightarrow> double \<Rightarrow> bool" where
  "dgt a b = dlt b a"

fun deq :: "double \<Rightarrow> double \<Rightarrow> bool" where
  "deq (Finite x) (Finite y) = (x = y)"
| "deq PInf PInf = True"
| "deq NInf NInf = True"
| "deq _ _ = False"

definition dge :: "double \<Rightarrow> double \<Rightarrow> bool" where
  "dge a b = (dlt b a \<or> deq a b)"

fun fabs :: "double \<Rightarrow> double" where
  "fabs (Finite x) = Finite \<bar>x\<bar>"
| "fabs PInf = PInf"
| "fabs NInf = PInf"
| "fabs NaN = NaN"

fun dneg :: "double \<Rightarrow> double" where
  "dneg (Finite x) = Finite (- x)"
| "dneg PInf = NInf"
| "dneg NInf = PInf"
| "dneg NaN = NaN"

text \<open>The conversion of a \<open>HighsInt\<close> to \<open>double\<close> (exact for 32-bit integers).\<close>

definition double_of_HighsInt :: "int \<Rightarrow> double" where
  "double_of_HighsInt i = Finite (of_int i)"

text \<open>The literal \<open>10E-5\<close>: the double nearest to \<open>1/10000\<close>.\<close>

definition lit_10Em5 :: double where
  "lit_10Em5 = Finite (7378697629483821 / 2 ^ 66)"

subsection \<open>Vectors and matrices\<close>

text \<open>
  \<open>Vector\<close> (vector.hpp): the solver reads and writes the members \<open>dim\<close>, \<open>num_nz\<close>,
  \<open>index\<close> and \<open>value\<close> directly. \<open>value\<close> is the dense array, \<open>index[0..num_nz)\<close>
  lists the positions of its nonzeros.
\<close>

record Vector =
  dim :: int
  num_nz :: int
  index :: "int list"
  "value" :: "double list"

text \<open>\<open>MatrixBase\<close> (matrix.hpp): compressed columns \<open>start\<close>, \<open>index\<close>, \<open>value\<close>.\<close>

record MatrixBase =
  mstart :: "int list"
  mindex :: "int list"
  mvalue :: "double list"

text \<open>Modelled from the spec: the enumeration \<open>ProblemStatus\<close> is declared in a header
  that is not among the sources. solver.cpp assigns \<open>OPTIMAL\<close>, \<open>UNBOUNDED\<close>,
  \<open>ITERATIONLIMIT\<close> and \<open>TIMELIMIT\<close> and tests for \<open>INFEASIBLE\<close>; the specification's data
  model lists, besides these, NotSet and Error.\<close>

datatype ProblemStatus =
  NOTSET | OPTIMAL | INFEASIBLE | UNBOUNDED | ITERATIONLIMIT | TIMELIMIT | ERROR

text \<open>\<open>BasisStatus\<close>, with the three values solver.cpp names; \<open>Instance\<close>, \<open>Settings\<close>,
  \<open>Statistics\<close>, \<open>Runtime\<close>, \<open>SumNum\<close> and \<open>RatiotestResult\<close> with the members solver.cpp
  reads or writes.\<close>

datatype BasisStatus = Default | ActiveAtLower | ActiveAtUpper

text \<open>\<open>Instance\<close>: the counts and the two matrices \<open>A\<close> and \<open>Q\<close> the solver touches.
  The type \<open>'m\<close> is \<open>Matrix\<close>.\<close>

record 'm Instance =
  num_var :: int
  num_con :: int
  A_matrix :: 'm
  Q_matrix :: 'm

record Settings =
  iterationlimit :: int
  timelimit :: double
  reportingfequency :: int
  pnorm_zero_threshold :: double
  d_zero_threshold :: double

record Statistics =
  num_iterations :: int
  time_start :: double
  time_end :: double
  iteration :: "int list"
  nullspacedimension :: "int list"
  objval :: "double list"
  time :: "double list"
  sum_primal_infeasibilities :: "double list"
  num_primal_infeasibilities :: "int list"
  density_factor :: "double list"
  density_nullspace :: "double list"

record 'm Runtime =
  "instance" :: "'m Instance"
  settings :: Settings
  statistics :: Statistics
  status :: ProblemStatus
  primal :: Vector
  rowactivity :: Vector
  dualvar :: Vector
  dualcon :: Vector

record SumNum =
  sum_sn :: double
  num_sn :: int

record RatiotestResult =
  alpha :: double
  limitingconstraint :: int
  nowactiveatlower :: bool

text \<open>What ends a run besides a return: \<open>exit(1)\<close>, and undefined behaviour (a
  subscript out of range, a remainder by zero).\<close>

datatype fault = Exit1 | Undefined

subsection \<open>The collaborators\<close>

text \<open>
  The solver drives classes whose code is in other files (vector.hpp, matrix.hpp,
  snippets.hpp, basis.hpp, factor.hpp, gradient.hpp, reducedgradient.hpp,
  reducedcosts.hpp, the pricing and ratio test strategies, the timer and the
  end-of-iteration event). Their methods are the fields of one record. The objects
  \<open>basis\<close>, \<open>factor\<close>, \<open>gradient\<close>, \<open>redgrad\<close>, \<open>redcosts\<close>, \<open>pricing\<close>, the timer and
  the event's listeners hold references to each other and to the Runtime, so their
  joint state is one value of type \<open>'c\<close>; a method takes the Runtime it may read and the
  joint state, and returns its result with the new joint state. A method writes its
  own objects and the target vector it is given, nothing else: not the Runtime and not
  its other arguments. \<open>construct\<close> stands for the constructors of \<open>Gradient\<close>,
  \<open>ReducedCosts\<close>, \<open>ReducedGradient\<close> and \<open>NewCholeskyFactor\<close>, \<open>Pricing_new\<close> for that of
  \<open>DevexPricing\<close>, \<open>clock_now\<close> for \<open>std::chrono::high_resolution_clock::now()\<close>.
\<close>

record ('c, 'm) collaborators =
  Vector_new :: "int \<Rightarrow> Vector"
  Vector_unit :: "int \<Rightarrow> int \<Rightarrow> Vector \<Rightarrow> Vector"
  Vector_norm2 :: "Vector \<Rightarrow> double"
  Vector_dot :: "Vector \<Rightarrow> Vector \<Rightarrow> double"
  Vector_times :: "Vector \<Rightarrow> Vector \<Rightarrow> double"
  Vector_dot_sparse :: "Vector \<Rightarrow> int list \<Rightarrow> double list \<Rightarrow> int \<Rightarrow> double"
  Vector_neg :: "Vector \<Rightarrow> Vector"
  Vector_sanitize :: "Vector \<Rightarrow> Vector"
  Vector_saxpy :: "Vector \<Rightarrow> double \<Rightarrow> Vector \<Rightarrow> Vector"
  Vector_saxpy2 :: "Vector \<Rightarrow> double \<Rightarrow> double \<Rightarrow> Vector \<Rightarrow> Vector"
  Vector_repopulate :: "Vector \<Rightarrow> Vector \<Rightarrow> Vector"
  Vector_scale :: "Vector \<Rightarrow> double \<Rightarrow> Vector"
  Vector_resparsify :: "Vector \<Rightarrow> Vector"
  double_div :: "double \<Rightarrow> double \<Rightarrow> double"
  indexof :: "int list \<Rightarrow> int \<Rightarrow> int"
  Matrix_mat_vec :: "'m \<Rightarrow> Vector \<Rightarrow> Vector \<Rightarrow> Vector"
  Matrix_t :: "'m \<Rightarrow> MatrixBase"
  MatrixBase_vec_mat :: "MatrixBase \<Rightarrow> Vector \<Rightarrow> Vector \<Rightarrow> Vector"
  MatrixBase_extractcol :: "MatrixBase \<Rightarrow> int \<Rightarrow> Vector"
  Instance_objval :: "'m Instance \<Rightarrow> Vector \<Rightarrow> double"
  Instance_sumnumprimalinfeasibilities :: "'m Instance \<Rightarrow> Vector \<Rightarrow> Vector \<Rightarrow> SumNum"
  construct :: "'m Runtime \<Rightarrow> 'c \<Rightarrow> 'c"
  Pricing_new :: "'m Runtime \<Rightarrow> 'c \<Rightarrow> 'c"
  clock_now :: "'c \<Rightarrow> double \<times> 'c"
  Timer_readRunHighsClock :: "'c \<Rightarrow> double \<times> 'c"
  Event_fire :: "'m Runtime \<Rightarrow> 'c \<Rightarrow> 'c"
  Basis_getnumactive :: "'c \<Rightarrow> int"
  Basis_getnuminactive :: "'c \<Rightarrow> int"
  Basis_getactive :: "'c \<Rightarrow> int list"
  Basis_getinactive :: "'c \<Rightarrow> int list"
  Basis_getindexinfactor :: "'c \<Rightarrow> int list"
  Basis_getstatus :: "'c \<Rightarrow> int \<Rightarrow> BasisStatus"
  Basis_btran :: "'m Runtime \<Rightarrow> Vector \<Rightarrow> Vector \<Rightarrow> bool \<Rightarrow> int \<Rightarrow> 'c \<Rightarrow> Vector \<times> 'c"
  Basis_Zprod :: "'m Runtime \<Rightarrow> Vector \<Rightarrow> Vector \<Rightarrow> 'c \<Rightarrow> Vector \<times> 'c"
  Basis_Ztprod :: "'m Runtime \<Rightarrow> Vector \<Rightarrow> Vector \<Rightarrow> bool \<Rightarrow> int \<Rightarrow> 'c \<Rightarrow> Vector \<times> 'c"
  Basis_deactivate :: "'m Runtime \<Rightarrow> int \<Rightarrow> 'c \<Rightarrow> 'c"
  Basis_activate :: "'m Runtime \<Rightarrow> int \<Rightarrow> BasisStatus \<Rightarrow> int \<Rightarrow> 'c \<Rightarrow> 'c"
  Basis_recomputex :: "'m Instance \<Rightarrow> 'c \<Rightarrow> Vector \<times> 'c"
  Factor_solve :: "Vector \<Rightarrow> 'c \<Rightarrow> Vector \<times> 'c"
  Factor_solveL :: "Vector \<Rightarrow> 'c \<Rightarrow> Vector \<times> 'c"
  Factor_solveLT :: "Vector \<Rightarrow> 'c \<Rightarrow> Vector \<times> 'c"
  Factor_expand :: "Vector \<Rightarrow> Vector \<Rightarrow> Vector \<Rightarrow> 'c \<Rightarrow> 'c"
  Factor_reduce :: "Vector \<Rightarrow> int \<Rightarrow> bool \<Rightarrow> 'c \<Rightarrow> 'c"
  Factor_density :: "'c \<Rightarrow> double"
  Gradient_getGradient :: "'m Runtime \<Rightarrow> 'c \<Rightarrow> Vector \<times> 'c"
  Gradient_update :: "'m Runtime \<Rightarrow> Vector \<Rightarrow> double \<Rightarrow> 'c \<Rightarrow> 'c"
  ReducedCosts_getReducedCosts :: "'m Runtime \<Rightarrow> 'c \<Rightarrow> Vector \<times> 'c"
  ReducedCosts_update :: "'m Runtime \<Rightarrow> 'c \<Rightarrow> 'c"
  ReducedGradient_get :: "'m Runtime \<Rightarrow> 'c \<Rightarrow> Vector \<times> 'c"
  ReducedGradient_expand :: "'m Runtime \<Rightarrow> Vector \<Rightarrow> 'c \<Rightarrow> 'c"
  ReducedGradient_reduce :: "'m Runtime \<Rightarrow> Vector \<Rightarrow> int \<Rightarrow> 'c \<Rightarrow> 'c"
  ReducedGradient_update :: "'m Runtime \<Rightarrow> double \<Rightarrow> bool \<Rightarrow> 'c \<Rightarrow> 'c"
  Pricing_price :: "'m Runtime \<Rightarrow> Vector \<Rightarrow> Vector \<Rightarrow> 'c \<Rightarrow> int \<times> 'c"
  Ratiotest_ratiotest ::
    "'m Runtime \<Rightarrow> Vector \<Rightarrow> Vector \<Rightarrow> Vector \<Rightarrow> Vector \<Rightarrow> double \<Rightarrow> 'c \<Rightarrow> RatiotestResult \<times> 'c"


subsection \<open>The solver's state\<close>

text \<open>
  So that it can be stated that a method is called, or is not called, the solver's
  state carries the history \<open>calls\<close> of the stateful collaborator methods invoked so far,
  oldest first. The history is not a variable of the program; the model appends to it
  exactly where the program calls the method.
\<close>

datatype call =
  Call_now | Call_construct | Call_Pricing_new | Call_readRunHighsClock | Call_fire
| Call_getGradient | Call_price | Call_btran | Call_Zprod | Call_Ztprod
| Call_deactivate int | Call_activate int int | Call_recomputex
| Call_solve | Call_solveL | Call_solveLT | Call_factor_expand | Call_factor_reduce
| Call_gradient_update | Call_getReducedCosts | Call_redcosts_update
| Call_redgrad_get | Call_redgrad_expand | Call_redgrad_reduce | Call_redgrad_update
| Call_ratiotest

text \<open>The Runtime, the collaborators' joint state, and the locals of
  \<open>Solver::solve(x0, ra, b0)\<close> that live across iterations (\<open>p_vec\<close> is the local \<open>p\<close>).\<close>

record ('c, 'm) solver =
  runtime :: "'m Runtime"
  coll :: 'c
  calls :: "call list"
  atfsep :: bool
  p_vec :: Vector
  rowmove :: Vector
  buffer_yp :: Vector
  buffer_gyp :: Vector
  buffer_l :: Vector
  buffer_Qp :: Vector
  buffer_d :: Vector

definition invoke ::
  "call \<Rightarrow> ('c \<Rightarrow> 'r \<times> 'c) \<Rightarrow> ('c, 'm) solver \<Rightarrow> 'r \<times> ('c, 'm) solver" where
  "invoke ev f s = (case f (coll s) of (r, c') \<Rightarrow> (r, s\<lparr>coll := c', calls := calls s @ [ev]\<rparr>))"

definition invoke0 ::
  "call \<Rightarrow> ('c \<Rightarrow> 'c) \<Rightarrow> ('c, 'm) solver \<Rightarrow> ('c, 'm) solver" where
  "invoke0 ev f s = s\<lparr>coll := f (coll s), calls := calls s @ [ev]\<rparr>"

definition set_status :: "ProblemStatus \<Rightarrow> ('c, 'm) solver \<Rightarrow> ('c, 'm) solver" where
  "set_status st s = s\<lparr>runtime := (runtime s)\<lparr>status := st\<rparr>\<rparr>"

text \<open>Subscripts of \<open>std::vector\<close>: out of range is undefined behaviour.\<close>

definition nth_chk :: "'a list \<Rightarrow> int \<Rightarrow> fault + 'a" where
  "nth_chk xs i = (if 0 \<le> i \<and> i < int (length xs) then Inr (xs ! nat i) else Inl Undefined)"

definition get_value :: "Vector \<Rightarrow> int \<Rightarrow> fault + double" where
  "get_value v i = nth_chk (value v) i"

definition set_value :: "Vector \<Rightarrow> int \<Rightarrow> double \<Rightarrow> fault + Vector" where
  "set_value v i x =
     (if 0 \<le> i \<and> i < int (length (value v)) then Inr (v\<lparr>value := (value v)[nat i := x]\<rparr>)
      else Inl Undefined)"

text \<open>How a loop body, or a part of it, ends: by \<open>break\<close>, or by going on with what it
  hands over.\<close>

datatype ('a, 'b) loopctl = Break 'a | Continue 'b

text \<open>How a statement of a function body ends: by \<open>return\<close>, or by falling through
  to the next statement.\<close>

datatype 'a flow = Running 'a | Returned 'a

definition then_stmt :: "'a flow \<Rightarrow> ('a \<Rightarrow> 'a flow) \<Rightarrow> 'a flow" where
  "then_stmt m f = (case m of Running a \<Rightarrow> f a | Returned a \<Rightarrow> Returned a)"

definition end_of_body :: "'a flow \<Rightarrow> 'a" where
  "end_of_body m = (case m of Running a \<Rightarrow> a | Returned a \<Rightarrow> a)"


section \<open>QP solver: the functions of solver.cpp\<close>

text \<open>
  The functions are taken in the order of the file. \<open>Solver::solve()\<close> without arguments
  only builds the arguments of \<open>solve(x0, ra, b0)\<close> from \<open>computestartingpoint\<close>, which is
  in another file, and \<open>recomputexatfsep\<close> has an empty body; neither is modelled.
  \<open>HighsInt\<close> values are integers; the iteration counter, the only one that grows, is
  raised only in a pass that has found it below the iteration limit.
\<close>

subsection \<open>\<open>Solver::loginformation\<close>\<close>

definition loginformation ::
  "('c, 'm) collaborators \<Rightarrow> ('c, 'm) solver \<Rightarrow> ('c, 'm) solver" where
  "loginformation E s =
     (let rt = runtime s; st = statistics rt;
          nsd = num_var (instance rt) - Basis_getnumactive E (coll s);
          ov = Instance_objval E (instance rt) (primal rt)
      in case invoke Call_readRunHighsClock (Timer_readRunHighsClock E) s of (t, s1) \<Rightarrow>
        let sm = Instance_sumnumprimalinfeasibilities E (instance rt) (primal rt) (rowactivity rt);
            st' = st\<lparr>iteration := iteration st @ [num_iterations st],
                     nullspacedimension := nullspacedimension st @ [nsd],
                     objval := objval st @ [ov],
                     time := time st @ [t],
                     sum_primal_infeasibilities := sum_primal_infeasibilities st @ [sum_sn sm],
                     num_primal_infeasibilities := num_primal_infeasibilities st @ [num_sn sm],
                     density_factor := density_factor st @ [Factor_density E (coll s1)],
                     density_nullspace := density_nullspace st @ [Finite 0]\<rparr>
        in s1\<lparr>runtime := rt\<lparr>statistics := st'\<rparr>\<rparr>)"

subsection \<open>\<open>tidyup\<close>\<close>

text \<open>The loop over \<open>basis.getactive()\<close>. (\<open>acon\<close> is \<open>unsigned\<close>; for the negative
  index that only a corrupt basis holds, both the program and the model end in an
  out-of-range subscript.)\<close>

fun tidyup_loop :: "int \<Rightarrow> int list \<Rightarrow> Vector \<Rightarrow> Vector \<Rightarrow> fault + (Vector \<times> Vector)" where
  "tidyup_loop nc [] p rm = Inr (p, rm)"
| "tidyup_loop nc (acon # rest) p rm =
     (if acon \<ge> nc then
        (case set_value p (acon - nc) (Finite 0) of
           Inl f \<Rightarrow> Inl f
         | Inr p' \<Rightarrow> tidyup_loop nc rest p' rm)
      else
        (case set_value rm acon (Finite 0) of
           Inl f \<Rightarrow> Inl f
         | Inr rm' \<Rightarrow> tidyup_loop nc rest p rm'))"

definition tidyup ::
  "('c, 'm) collaborators \<Rightarrow> ('c, 'm) solver \<Rightarrow> fault + ('c, 'm) solver" where
  "tidyup E s =
     (case tidyup_loop (num_con (instance (runtime s))) (Basis_getactive E (coll s))
             (p_vec s) (rowmove s) of
        Inl f \<Rightarrow> Inl f
      | Inr (p', rm') \<Rightarrow> Inr (s\<lparr>p_vec := p', rowmove := rm'\<rparr>))"

subsection \<open>\<open>computerowmove\<close>\<close>

text \<open>The loop after the second \<open>return\<close>, over the rows \<open>i < num_con\<close>. (Its subscripts
  are written without range checks; the theorem on \<open>computerowmove\<close> below shows that
  the loop is never run.)\<close>

fun computerowmove_rows ::
  "('c, 'm) collaborators \<Rightarrow> 'c \<Rightarrow> MatrixBase \<Rightarrow> Vector \<Rightarrow> nat list \<Rightarrow> Vector \<Rightarrow> Vector" where
  "computerowmove_rows E b Atran p [] rm = rm"
| "computerowmove_rows E b Atran p (i # rest) rm =
     (if Basis_getstatus E b (int i) = Default then
        (let st = mstart Atran ! i;
             v = Vector_dot_sparse E p (drop (nat st) (mindex Atran)) (drop (nat st) (mvalue Atran))
                   (mstart Atran ! (i + 1) - st)
         in computerowmove_rows E b Atran p rest (rm\<lparr>value := (value rm)[i := v]\<rparr>))
      else computerowmove_rows E b Atran p rest (rm\<lparr>value := (value rm)[i := Finite 0]\<rparr>))"

text \<open>The body, statement by statement: the product, \<open>return\<close>, the product through the
  transpose, \<open>return\<close>, the loop, \<open>resparsify\<close>.\<close>

definition computerowmove ::
  "('c, 'm) collaborators \<Rightarrow> 'm Runtime \<Rightarrow> 'c \<Rightarrow> Vector \<Rightarrow> Vector \<Rightarrow> Vector" where
  "computerowmove E rt b p rm =
     end_of_body
       (then_stmt (then_stmt (then_stmt (then_stmt (then_stmt
          (Running (Matrix_mat_vec E (A_matrix (instance rt)) p rm))
          Returned)
          (\<lambda>rm. Running (MatrixBase_vec_mat E (Matrix_t E (A_matrix (instance rt))) p rm)))
          Returned)
          (\<lambda>rm. Running (computerowmove_rows E b (Matrix_t E (A_matrix (instance rt))) p
                           [0 ..< nat (num_con (instance rt))] rm)))
          (\<lambda>rm. Running (Vector_resparsify E rm)))"

text \<open>The specification of \<open>computerowmove\<close>: the plain product \<open>A p\<close>, written to the
  target.\<close>

definition rowmove_is_A_times_p ::
  "('c, 'm) collaborators \<Rightarrow> 'm Runtime \<Rightarrow> Vector \<Rightarrow> Vector \<Rightarrow> Vector" where
  "rowmove_is_A_times_p E rt p rm = Matrix_mat_vec E (A_matrix (instance rt)) p rm"

subsection \<open>The search directions\<close>

definition computesearchdirection_minor ::
  "('c, 'm) collaborators \<Rightarrow> ('c, 'm) solver \<Rightarrow> ('c, 'm) solver" where
  "computesearchdirection_minor E s =
     (case invoke Call_redgrad_get (ReducedGradient_get E (runtime s)) s of (rg, s1) \<Rightarrow>
        let g2 = Vector_sanitize E (Vector_neg E rg) in
        case invoke Call_solve (Factor_solve E g2) s1 of (g2', s2) \<Rightarrow>
          let g2'' = Vector_sanitize E g2' in
          case invoke Call_Zprod (Basis_Zprod E (runtime s2) g2'' (p_vec s2)) s2 of (p', s3) \<Rightarrow>
            s3\<lparr>p_vec := p'\<rparr>)"

text \<open>\<open>computesearchdirection_major\<close>, called with \<open>yp = buffer_yp\<close>, \<open>gyp = buffer_gyp\<close>
  and \<open>l = buffer_l\<close>. \<open>Ztprod\<close> is called with its default arguments \<open>false\<close> and \<open>-1\<close>.\<close>

definition computesearchdirection_major ::
  "('c, 'm) collaborators \<Rightarrow> ('c, 'm) solver \<Rightarrow> ('c, 'm) solver" where
  "computesearchdirection_major E s =
     (let yyp = buffer_yp s;
          gyp = Matrix_mat_vec E (Q_matrix (instance (runtime s))) yyp (buffer_gyp s);
          s0 = s\<lparr>buffer_gyp := gyp\<rparr>
      in if Basis_getnumactive E (coll s0) < num_var (instance (runtime s0)) then
           (case invoke Call_Ztprod (Basis_Ztprod E (runtime s0) gyp (buffer_l s0) False (- 1)) s0 of
              (l1, s1) \<Rightarrow>
            case invoke Call_solveL (Factor_solveL E l1) s1 of (l2, s2) \<Rightarrow>
            case invoke Call_solveLT (Factor_solveLT E l2) s2 of (v, s3) \<Rightarrow>
            case invoke Call_Zprod (Basis_Zprod E (runtime s3) v (p_vec s3)) s3 of (p1, s4) \<Rightarrow>
            case invoke Call_getGradient (Gradient_getGradient E (runtime s4)) s4 of (g, s5) \<Rightarrow>
              if dlt (Vector_dot E g yyp) (Finite 0)
              then s5\<lparr>buffer_l := l2, p_vec := Vector_saxpy2 E p1 (Finite (- 1)) (Finite 1) yyp\<rparr>
              else s5\<lparr>buffer_l := l2, p_vec := Vector_saxpy2 E p1 (Finite (- 1)) (Finite (- 1)) yyp\<rparr>)
         else
           (case invoke Call_getGradient (Gradient_getGradient E (runtime s0)) s0 of (g, s1) \<Rightarrow>
              s1\<lparr>p_vec := Vector_scale E (Vector_repopulate E (p_vec s1) (buffer_yp s1))
                               (dneg (Vector_dot E g (buffer_yp s1)))\<rparr>))"

subsection \<open>\<open>computemaxsteplength\<close>\<close>

text \<open>Called with \<open>p\<close> and \<open>buffer_Qp\<close>; \<open>zcd\<close> is the flag passed by reference. The result
  is the step length, the flag and the state.\<close>

definition computemaxsteplength ::
  "('c, 'm) collaborators \<Rightarrow> bool \<Rightarrow> ('c, 'm) solver \<Rightarrow> double \<times> bool \<times> ('c, 'm) solver" where
  "computemaxsteplength E zcd s =
     (let Qp = Matrix_mat_vec E (Q_matrix (instance (runtime s))) (p_vec s) (buffer_Qp s);
          denominator = Vector_times E (p_vec s) Qp;
          s1 = s\<lparr>buffer_Qp := Qp\<rparr>
      in if dgt (fabs denominator) lit_10Em5 then
           (case invoke Call_getGradient (Gradient_getGradient E (runtime s1)) s1 of (g, s2) \<Rightarrow>
              let numerator = dneg (Vector_times E (p_vec s2) g)
              in if dlt numerator (Finite 0) then (Finite 0, zcd, s2)
                 else (double_div E numerator denominator, zcd, s2))
         else (PInf, True, s1))"

subsection \<open>\<open>reduce\<close>\<close>

text \<open>The loop \<open>for (i = 0; i < buffer_d.num_nz; i++)\<close> that moves \<open>maxabsd\<close>.\<close>

fun reduce_loop :: "Vector \<Rightarrow> nat list \<Rightarrow> int \<Rightarrow> fault + int" where
  "reduce_loop d [] maxabsd = Inr maxabsd"
| "reduce_loop d (i # rest) maxabsd =
     (case nth_chk (index d) (int i) of
        Inl f \<Rightarrow> Inl f
      | Inr k \<Rightarrow>
        (case get_value d k of
           Inl f \<Rightarrow> Inl f
         | Inr vk \<Rightarrow>
           (case get_value d maxabsd of
              Inl f \<Rightarrow> Inl f
            | Inr vm \<Rightarrow> reduce_loop d rest (if dgt (fabs vk) (fabs vm) then k else maxabsd))))"

text \<open>The result is \<open>maxabsd\<close>, \<open>constrainttodrop\<close> and the state (with \<open>buffer_d\<close>).\<close>

definition reduce ::
  "('c, 'm) collaborators \<Rightarrow> int \<Rightarrow> ('c, 'm) solver \<Rightarrow> fault + (int \<times> int \<times> ('c, 'm) solver)" where
  "reduce E newactivecon s =
     (let idx = indexof E (Basis_getinactive E (coll s)) newactivecon in
      if idx \<noteq> - 1 then
        Inr (idx, newactivecon,
             s\<lparr>buffer_d := Vector_unit E (int (length (Basis_getinactive E (coll s)))) idx (buffer_d s)\<rparr>)
      else
        (let aq = MatrixBase_extractcol E (Matrix_t E (A_matrix (instance (runtime s)))) newactivecon
         in case invoke Call_Ztprod (Basis_Ztprod E (runtime s) aq (buffer_d s) True newactivecon) s of
           (d, s1) \<Rightarrow>
             (case reduce_loop d [0 ..< nat (num_nz d)] 0 of
                Inl f \<Rightarrow> Inl f
              | Inr maxabsd \<Rightarrow>
                (case nth_chk (Basis_getinactive E (coll s1)) maxabsd of
                   Inl f \<Rightarrow> Inl f
                 | Inr constrainttodrop \<Rightarrow>
                   (case get_value d maxabsd of
                      Inl f \<Rightarrow> Inl f
                    | Inr v \<Rightarrow>
                        if dlt (fabs v) (d_zero_threshold (settings (runtime s1))) then Inl Exit1
                        else Inr (maxabsd, constrainttodrop, s1\<lparr>buffer_d := d\<rparr>))))))"

subsection \<open>\<open>Solver::solve(x0, ra, b0)\<close>: one pass of the loop body\<close>

text \<open>The logging block and the increment of the iteration counter. A remainder by a
  zero \<open>reportingfequency\<close> is undefined behaviour; for any other divisor the remainder
  of C++ is 0 exactly when \<open>mod\<close> is.\<close>

definition logging ::
  "('c, 'm) collaborators \<Rightarrow> ('c, 'm) solver \<Rightarrow> fault + ('c, 'm) solver" where
  "logging E s =
     (let rt = runtime s in
      if reportingfequency (settings rt) = 0 then Inl Undefined
      else
        (let s1 = (if num_iterations (statistics rt) mod reportingfequency (settings rt) = 0
                   then (let sl = loginformation E s
                         in invoke0 Call_fire (Event_fire E (runtime sl)) sl)
                   else s);
             rt1 = runtime s1; st1 = statistics rt1
         in Inr (s1\<lparr>runtime := rt1\<lparr>statistics := st1\<lparr>num_iterations := num_iterations st1 + 1\<rparr>\<rparr>\<rparr>)))"

text \<open>The branch \<open>if (atfsep)\<close>, for an index \<open>minidx\<close> that pricing has returned: from
  \<open>HighsInt unit = basis.getindexinfactor()[minidx]\<close> to \<open>tidyup\<close>.\<close>

definition major_direction ::
  "('c, 'm) collaborators \<Rightarrow> int \<Rightarrow> ('c, 'm) solver \<Rightarrow> fault + ('c, 'm) solver" where
  "major_direction E minidx s =
     (case nth_chk (Basis_getindexinfactor E (coll s)) minidx of
        Inl f \<Rightarrow> Inl f
      | Inr unit \<Rightarrow>
        (let yp0 = Vector_unit E (num_var (instance (runtime s))) unit (buffer_yp s) in
         case invoke Call_btran (Basis_btran E (runtime s) yp0 yp0 True minidx) s of
           (yp, s3) \<Rightarrow>
           (let s4 = s3\<lparr>buffer_yp := yp,
                        buffer_l := (buffer_l s3)\<lparr>dim := Basis_getnuminactive E (coll s3)\<rparr>\<rparr>;
                s5 = computesearchdirection_major E s4;
                s6 = invoke0 (Call_deactivate minidx) (Basis_deactivate E (runtime s5) minidx) s5;
                s7 = s6\<lparr>rowmove :=
                          computerowmove E (runtime s6) (coll s6) (p_vec s6) (rowmove s6)\<rparr>
            in tidyup E s7)))"

text \<open>The rest of the branch: the product \<open>Q p\<close> (whose product with \<open>p\<close> is stored in a
  variable that is not read), \<open>computemaxsteplength\<close>, and the two \<open>expand\<close> calls. The
  result is \<open>zero_curvature_direction\<close>, \<open>maxsteplength\<close> and the state.\<close>

definition major_steplength ::
  "('c, 'm) collaborators \<Rightarrow> ('c, 'm) solver \<Rightarrow> bool \<times> double \<times> ('c, 'm) solver" where
  "major_steplength E s =
     (let s9 = s\<lparr>buffer_Qp :=
                  Matrix_mat_vec E (Q_matrix (instance (runtime s))) (p_vec s) (buffer_Qp s)\<rparr>
      in case computemaxsteplength E False s9 of
        (maxsteplength, zero_curvature_direction, s10) \<Rightarrow>
          (let s11 = (if \<not> zero_curvature_direction
                      then invoke0 Call_factor_expand
                             (Factor_expand E (buffer_yp s10) (buffer_gyp s10) (buffer_l s10)) s10
                      else s10);
               s12 = invoke0 Call_redgrad_expand
                       (ReducedGradient_expand E (runtime s11) (buffer_yp s11)) s11
           in (zero_curvature_direction, maxsteplength, s12)))"

text \<open>The branch \<open>if (atfsep)\<close>. It ends the loop (\<open>Break\<close>) when pricing returns \<open>-1\<close>;
  otherwise it hands \<open>zero_curvature_direction\<close> and \<open>maxsteplength\<close> to the rest of the
  body.\<close>

definition atvertex ::
  "('c, 'm) collaborators \<Rightarrow> ('c, 'm) solver
   \<Rightarrow> fault + ((('c, 'm) solver, bool \<times> double \<times> ('c, 'm) solver) loopctl)" where
  "atvertex E s =
     (case invoke Call_getGradient (Gradient_getGradient E (runtime s)) s of (g, s1) \<Rightarrow>
      case invoke Call_price (Pricing_price E (runtime s1) (primal (runtime s1)) g) s1 of
        (minidx, s2) \<Rightarrow>
          if minidx = - 1 then Inr (Break (set_status OPTIMAL s2))
          else
            (case major_direction E minidx s2 of
               Inl f \<Rightarrow> Inl f
             | Inr s8 \<Rightarrow> Inr (Continue (major_steplength E s8))))"

text \<open>The branch \<open>else\<close> of \<open>if (atfsep)\<close>.\<close>

definition onface ::
  "('c, 'm) collaborators \<Rightarrow> ('c, 'm) solver \<Rightarrow> fault + ('c, 'm) solver" where
  "onface E s =
     (let s1 = computesearchdirection_minor E s;
          s2 = s1\<lparr>rowmove := computerowmove E (runtime s1) (coll s1) (p_vec s1) (rowmove s1)\<rparr>
      in tidyup E s2)"

text \<open>The branch \<open>if (stepres.limitingconstraint != -1)\<close>.\<close>

definition blocked ::
  "('c, 'm) collaborators \<Rightarrow> bool \<Rightarrow> RatiotestResult \<Rightarrow> ('c, 'm) solver
   \<Rightarrow> fault + ('c, 'm) solver" where
  "blocked E zero_curvature_direction stepres s =
     (case reduce E (limitingconstraint stepres) s of
        Inl f \<Rightarrow> Inl f
      | Inr (maxabsd, constrainttodrop, s1) \<Rightarrow>
        (let s2 = (if \<not> zero_curvature_direction
                   then invoke0 Call_factor_reduce
                          (Factor_reduce E (buffer_d s1) maxabsd
                             (indexof E (Basis_getinactive E (coll s1)) (limitingconstraint stepres)
                                \<noteq> - 1)) s1
                   else s1);
             s3 = invoke0 Call_redgrad_reduce
                    (ReducedGradient_reduce E (runtime s2) (buffer_d s2) maxabsd) s2;
             s4 = invoke0 Call_redgrad_update
                    (ReducedGradient_update E (runtime s3) (alpha stepres) False) s3;
             s5 = invoke0 (Call_activate (limitingconstraint stepres) constrainttodrop)
                    (Basis_activate E (runtime s4) (limitingconstraint stepres)
                       (if nowactiveatlower stepres then ActiveAtLower else ActiveAtUpper)
                       constrainttodrop) s4
         in Inr (if Basis_getnumactive E (coll s5) \<noteq> num_var (instance (runtime s5))
                 then s5\<lparr>atfsep := False\<rparr> else s5)))"

text \<open>The branch \<open>else\<close>: no constraint blocks. The test compares the constraint index,
  converted to \<open>double\<close>, with infinity.\<close>

definition unblocked ::
  "('c, 'm) collaborators \<Rightarrow> RatiotestResult \<Rightarrow> ('c, 'm) solver \<Rightarrow> ('c, 'm) solver" where
  "unblocked E stepres s =
     (let s1 = (if deq (double_of_HighsInt (limitingconstraint stepres)) PInf
                then set_status UNBOUNDED s else s);
          s2 = s1\<lparr>atfsep := True\<rparr>
      in invoke0 Call_redgrad_update
           (ReducedGradient_update E (runtime s2) (alpha stepres) False) s2)"

text \<open>From \<open>if (p.norm2() < ... || maxsteplength == 0.0)\<close> to the end of the body.\<close>

definition takestep ::
  "('c, 'm) collaborators \<Rightarrow> bool \<Rightarrow> double \<Rightarrow> ('c, 'm) solver \<Rightarrow> fault + ('c, 'm) solver" where
  "takestep E zero_curvature_direction maxsteplength s =
     (if dlt (Vector_norm2 E (p_vec s)) (pnorm_zero_threshold (settings (runtime s)))
         \<or> deq maxsteplength (Finite 0)
      then Inr (s\<lparr>atfsep := True\<rparr>)
      else
        (case invoke Call_ratiotest
                (Ratiotest_ratiotest E (runtime s) (primal (runtime s)) (p_vec s)
                   (rowactivity (runtime s)) (rowmove s) maxsteplength) s of
           (stepres, s1) \<Rightarrow>
             (case (if limitingconstraint stepres \<noteq> - 1
                    then blocked E zero_curvature_direction stepres s1
                    else Inr (unblocked E stepres s1)) of
                Inl f \<Rightarrow> Inl f
              | Inr s2 \<Rightarrow>
                (let s3 = invoke0 Call_gradient_update
                            (Gradient_update E (runtime s2) (buffer_Qp s2) (alpha stepres)) s2;
                     s4 = invoke0 Call_redcosts_update (ReducedCosts_update E (runtime s3)) s3;
                     rt4 = runtime s4;
                     x' = Vector_saxpy E (primal rt4) (alpha stepres) (p_vec s4);
                     ra' = Vector_saxpy E (rowactivity rt4) (alpha stepres) (rowmove s4)
                 in Inr (s4\<lparr>runtime := rt4\<lparr>primal := x', rowactivity := ra'\<rparr>\<rparr>)))))"

text \<open>The body of \<open>while (true)\<close>.\<close>

definition iteration ::
  "('c, 'm) collaborators \<Rightarrow> ('c, 'm) solver
   \<Rightarrow> fault + ((('c, 'm) solver, ('c, 'm) solver) loopctl)" where
  "iteration E s =
     (if num_iterations (statistics (runtime s)) \<ge> iterationlimit (settings (runtime s))
      then Inr (Break (set_status ITERATIONLIMIT s))
      else
        (case invoke Call_readRunHighsClock (Timer_readRunHighsClock E) s of (t, s1) \<Rightarrow>
           if dge t (timelimit (settings (runtime s1)))
           then Inr (Break (set_status TIMELIMIT s1))
           else
             (case logging E s1 of
                Inl f \<Rightarrow> Inl f
              | Inr s2 \<Rightarrow>
                  if atfsep s2 then
                    (case atvertex E s2 of
                       Inl f \<Rightarrow> Inl f
                     | Inr (Break s3) \<Rightarrow> Inr (Break s3)
                     | Inr (Continue (zcd, msl, s3)) \<Rightarrow>
                         (case takestep E zcd msl s3 of
                            Inl f \<Rightarrow> Inl f
                          | Inr s4 \<Rightarrow> Inr (Continue s4)))
                  else
                    (case onface E s2 of
                       Inl f \<Rightarrow> Inl f
                     | Inr s3 \<Rightarrow>
                         (case takestep E False (Finite 1) s3 of
                            Inl f \<Rightarrow> Inl f
                          | Inr s4 \<Rightarrow> Inr (Continue s4))))))"

subsection \<open>\<open>Solver::solve(x0, ra, b0)\<close>: before and after the loop\<close>

text \<open>Everything before \<open>while (true)\<close>. The parameter \<open>ra\<close> is not used by the
  function: the row activity is recomputed as \<open>A x0\<close>.\<close>

definition solve_init ::
  "('c, 'm) collaborators \<Rightarrow> Vector \<Rightarrow> Vector \<Rightarrow> 'c \<Rightarrow> 'm Runtime \<Rightarrow> ('c, 'm) solver" where
  "solve_init E x0 ra b0 rt0 =
     (case clock_now E b0 of (t0, c1) \<Rightarrow>
        let rt1 = rt0\<lparr>statistics := (statistics rt0)\<lparr>time_start := t0\<rparr>, primal := x0\<rparr>;
            c2 = construct E rt1 c1;
            rt2 = rt1\<lparr>rowactivity :=
                       Matrix_mat_vec E (A_matrix (instance rt1)) (primal rt1) (rowactivity rt1)\<rparr>;
            c3 = Pricing_new E rt2 c2;
            nv = num_var (instance rt2);
            nc = num_con (instance rt2)
        in \<lparr>runtime = rt2, coll = c3, calls = [Call_now, Call_construct, Call_Pricing_new],
            atfsep = (Basis_getnumactive E c3 = nv),
            p_vec = Vector_new E nv, rowmove = Vector_new E nc,
            buffer_yp = Vector_new E nv, buffer_gyp = Vector_new E nv,
            buffer_l = Vector_new E nv, buffer_Qp = Vector_new E nv,
            buffer_d = Vector_new E nv\<rparr>)"

text \<open>The loop \<open>for (auto e : basis.getactive())\<close> over the active indices, writing
  \<open>dualvar\<close> and \<open>dualcon\<close> from \<open>lambda\<close>.\<close>

fun recover_duals ::
  "int \<Rightarrow> int list \<Rightarrow> Vector \<Rightarrow> int list \<Rightarrow> Vector \<Rightarrow> Vector \<Rightarrow> fault + (Vector \<times> Vector)" where
  "recover_duals nc iif lambda [] dv dc = Inr (dv, dc)"
| "recover_duals nc iif lambda (e # rest) dv dc =
     (case nth_chk iif e of
        Inl f \<Rightarrow> Inl f
      | Inr indexinbasis \<Rightarrow>
        (case get_value lambda indexinbasis of
           Inl f \<Rightarrow> Inl f
         | Inr v \<Rightarrow>
             if e \<ge> nc then
               (case set_value dv (e - nc) v of
                  Inl f \<Rightarrow> Inl f
                | Inr dv' \<Rightarrow> recover_duals nc iif lambda rest dv' dc)
             else
               (case set_value dc e v of
                  Inl f \<Rightarrow> Inl f
                | Inr dc' \<Rightarrow> recover_duals nc iif lambda rest dv dc')))"

text \<open>From \<open>Vector lambda = redcosts.getReducedCosts()\<close> to the assignment of
  \<open>basis.recomputex\<close>.\<close>

definition recover ::
  "('c, 'm) collaborators \<Rightarrow> ('c, 'm) solver \<Rightarrow> fault + ('c, 'm) solver" where
  "recover E s =
     (case invoke Call_getReducedCosts (ReducedCosts_getReducedCosts E (runtime s)) s of
        (lambda, s1) \<Rightarrow>
          (case recover_duals (num_con (instance (runtime s1))) (Basis_getindexinfactor E (coll s1))
                  lambda (Basis_getactive E (coll s1)) (dualvar (runtime s1)) (dualcon (runtime s1)) of
             Inl f \<Rightarrow> Inl f
           | Inr (dv, dc) \<Rightarrow>
             (let s2 = s1\<lparr>runtime := (runtime s1)\<lparr>dualvar := dv, dualcon := dc\<rparr>\<rparr>
              in if Basis_getnumactive E (coll s2) = num_var (instance (runtime s2)) then
                   (case invoke Call_recomputex (Basis_recomputex E (instance (runtime s2))) s2 of
                      (x, s3) \<Rightarrow> Inr (s3\<lparr>runtime := (runtime s3)\<lparr>primal := x\<rparr>\<rparr>))
                 else Inr s2)))"

text \<open>The two statements right after the loop: \<open>loginformation\<close> and the event.\<close>

definition final_log ::
  "('c, 'm) collaborators \<Rightarrow> ('c, 'm) solver \<Rightarrow> ('c, 'm) solver" where
  "final_log E s =
     (let s1 = loginformation E s in invoke0 Call_fire (Event_fire E (runtime s1)) s1)"

text \<open>Everything after the loop.\<close>

definition solve_finish ::
  "('c, 'm) collaborators \<Rightarrow> ('c, 'm) solver \<Rightarrow> fault + ('c, 'm) solver" where
  "solve_finish E s =
     (case recover E (final_log E s) of
        Inl f \<Rightarrow> Inl f
      | Inr s3 \<Rightarrow>
        (case invoke Call_now (clock_now E) s3 of (t, s4) \<Rightarrow>
           Inr (s4\<lparr>runtime := (runtime s4)\<lparr>statistics := (statistics (runtime s4))\<lparr>time_end := t\<rparr>\<rparr>\<rparr>)))"


section \<open>A small set of collaborators\<close>

text \<open>
  Concrete collaborators, to run the solver on: problems with variables bounded below
  by zero and no rows (\<open>num_con = 0\<close>, so the index of the bound of variable \<open>i\<close> is
  \<open>i\<close>), in exact arithmetic. The basis matrix of such bounds is the identity, so
  \<open>btran\<close>, \<open>Zprod\<close>, \<open>Ztprod\<close> and the factor's solves hand their argument through;
  \<open>recomputex\<close> puts every variable on its bound; the reduced costs are the gradient
  \<open>Q x + c\<close>; the clock stands still.
\<close>

text \<open>Arithmetic without rounding, exact on the small values of the runs below.\<close>

fun toy_add :: "double \<Rightarrow> double \<Rightarrow> double" where
  "toy_add (Finite x) (Finite y) = Finite (x + y)"
| "toy_add NaN b = NaN"
| "toy_add a NaN = NaN"
| "toy_add PInf NInf = NaN"
| "toy_add NInf PInf = NaN"
| "toy_add PInf b = PInf"
| "toy_add a PInf = PInf"
| "toy_add NInf b = NInf"
| "toy_add a NInf = NInf"

definition toy_sgn_inf :: "real \<Rightarrow> double" where
  "toy_sgn_inf x = (if x = 0 then NaN else if 0 < x then PInf else NInf)"

fun toy_mul :: "double \<Rightarrow> double \<Rightarrow> double" where
  "toy_mul (Finite x) (Finite y) = Finite (x * y)"
| "toy_mul NaN b = NaN"
| "toy_mul a NaN = NaN"
| "toy_mul PInf (Finite y) = toy_sgn_inf y"
| "toy_mul NInf (Finite y) = toy_sgn_inf (- y)"
| "toy_mul (Finite x) PInf = toy_sgn_inf x"
| "toy_mul (Finite x) NInf = toy_sgn_inf (- x)"
| "toy_mul PInf PInf = PInf"
| "toy_mul NInf NInf = PInf"
| "toy_mul PInf NInf = NInf"
| "toy_mul NInf PInf = NInf"

fun toy_div :: "double \<Rightarrow> double \<Rightarrow> double" where
  "toy_div (Finite x) (Finite y) = (if y = 0 then toy_sgn_inf x else Finite (x / y))"
| "toy_div (Finite x) PInf = Finite 0"
| "toy_div (Finite x) NInf = Finite 0"
| "toy_div PInf (Finite y) = (if 0 \<le> y then PInf else NInf)"
| "toy_div NInf (Finite y) = (if 0 \<le> y then NInf else PInf)"
| "toy_div a b = NaN"

fun toy_dotl :: "double list \<Rightarrow> double list \<Rightarrow> double" where
  "toy_dotl (x # xs) (y # ys) = toy_add (toy_mul x y) (toy_dotl xs ys)"
| "toy_dotl xs ys = Finite 0"

text \<open>A vector that lists every position as a nonzero.\<close>

definition toy_dense :: "double list \<Rightarrow> Vector" where
  "toy_dense xs = \<lparr>dim = int (length xs), num_nz = int (length xs),
                    index = map int [0 ..< length xs], value = xs\<rparr>"

fun toy_indexof :: "int list \<Rightarrow> int \<Rightarrow> int" where
  "toy_indexof [] x = - 1"
| "toy_indexof (y # ys) x =
     (if y = x then 0 else (let r = toy_indexof ys x in if r = - 1 then - 1 else r + 1))"

text \<open>The joint state: the active and the inactive indices, the linear cost, the clock.\<close>

record toy =
  tb_active :: "int list"
  tb_inactive :: "int list"
  tb_cost :: "double list"
  tb_clock :: double

text \<open>The gradient \<open>Q x + c\<close> at the Runtime's primal point.\<close>

definition toy_gradient :: "(double list list) Runtime \<Rightarrow> toy \<Rightarrow> double list" where
  "toy_gradient rt c =
     map2 toy_add (map (\<lambda>row. toy_dotl row (value (primal rt))) (Q_matrix (instance rt))) (tb_cost c)"

text \<open>Pricing: the first active bound whose multiplier is negative, or \<open>-1\<close>.\<close>

fun toy_price :: "double list \<Rightarrow> int list \<Rightarrow> int" where
  "toy_price g [] = - 1"
| "toy_price g (e # es) =
     (case nth_chk g e of
        Inr v \<Rightarrow> if dlt v (Finite 0) then e else toy_price g es
      | Inl f \<Rightarrow> toy_price g es)"

text \<open>Ratio test against the bounds \<open>x \<ge> 0\<close>: the first variable that moves down and
  reaches its bound within the step length blocks; if none does, the step is
  \<open>maxsteplength\<close> and the constraint is \<open>-1\<close>.\<close>

fun toy_ratiotest :: "int \<Rightarrow> double list \<Rightarrow> double list \<Rightarrow> double \<Rightarrow> RatiotestResult" where
  "toy_ratiotest i (x # xs) (p # ps) msl =
     (if dlt p (Finite 0) \<and> \<not> dlt msl (toy_div x (dneg p))
      then \<lparr>alpha = toy_div x (dneg p), limitingconstraint = i, nowactiveatlower = True\<rparr>
      else toy_ratiotest (i + 1) xs ps msl)"
| "toy_ratiotest i xs ps msl = \<lparr>alpha = msl, limitingconstraint = - 1, nowactiveatlower = False\<rparr>"

definition toy_mask :: "int list \<Rightarrow> double list \<Rightarrow> double list" where
  "toy_mask act g = map (\<lambda>(i, v). if int i \<in> set act then Finite 0 else v) (zip [0 ..< length g] g)"

definition toyE :: "(toy, double list list) collaborators" where
  "toyE = \<lparr>
     Vector_new = (\<lambda>n. toy_dense (replicate (nat n) (Finite 0))),
     Vector_unit = (\<lambda>d u t. toy_dense ((replicate (nat d) (Finite 0))[nat u := Finite 1])),
     Vector_norm2 = (\<lambda>v. toy_dotl (value v) (value v)),
     Vector_dot = (\<lambda>u v. toy_dotl (value u) (value v)),
     Vector_times = (\<lambda>u v. toy_dotl (value u) (value v)),
     Vector_dot_sparse = (\<lambda>v ix vs n. toy_dotl (value v) vs),
     Vector_neg = (\<lambda>v. toy_dense (map dneg (value v))),
     Vector_sanitize = (\<lambda>v. v),
     Vector_saxpy = (\<lambda>x a y. toy_dense (map2 (\<lambda>xi yi. toy_add xi (toy_mul a yi)) (value x) (value y))),
     Vector_saxpy2 = (\<lambda>p a b x. toy_dense (map2 (\<lambda>pi xi. toy_add (toy_mul a pi) (toy_mul b xi)) (value p) (value x))),
     Vector_repopulate = (\<lambda>p other. other),
     Vector_scale = (\<lambda>v a. toy_dense (map (toy_mul a) (value v))),
     Vector_resparsify = (\<lambda>v. v),
     double_div = toy_div,
     indexof = toy_indexof,
     Matrix_mat_vec = (\<lambda>M v t. toy_dense (map (\<lambda>row. toy_dotl row (value v)) M)),
     Matrix_t = (\<lambda>M. \<lparr>mstart = [], mindex = [], mvalue = []\<rparr>),
     MatrixBase_vec_mat = (\<lambda>M v t. t),
     MatrixBase_extractcol = (\<lambda>M i. toy_dense []),
     Instance_objval = (\<lambda>inst x. Finite 0),
     Instance_sumnumprimalinfeasibilities = (\<lambda>inst x ra. \<lparr>sum_sn = Finite 0, num_sn = 0\<rparr>),
     construct = (\<lambda>rt c. c),
     Pricing_new = (\<lambda>rt c. c),
     clock_now = (\<lambda>c. (tb_clock c, c)),
     Timer_readRunHighsClock = (\<lambda>c. (tb_clock c, c)),
     Event_fire = (\<lambda>rt c. c),
     Basis_getnumactive = (\<lambda>c. int (length (tb_active c))),
     Basis_getnuminactive = (\<lambda>c. int (length (tb_inactive c))),
     Basis_getactive = tb_active,
     Basis_getinactive = tb_inactive,
     Basis_getindexinfactor = (\<lambda>c. map int [0 ..< length (tb_cost c)]),
     Basis_getstatus = (\<lambda>c i. if i \<in> set (tb_active c) then ActiveAtLower else Default),
     Basis_btran = (\<lambda>rt rhs target buffer q c. (rhs, c)),
     Basis_Zprod = (\<lambda>rt rhs target c. (rhs, c)),
     Basis_Ztprod = (\<lambda>rt rhs target buffer q c. (rhs, c)),
     Basis_deactivate = (\<lambda>rt i c. c\<lparr>tb_active := removeAll i (tb_active c),
                                        tb_inactive := tb_inactive c @ [i]\<rparr>),
     Basis_activate = (\<lambda>rt con st drp c. c\<lparr>tb_active := tb_active c @ [con],
                                              tb_inactive := removeAll drp (tb_inactive c)\<rparr>),
     Basis_recomputex = (\<lambda>inst c. (toy_dense (map (\<lambda>v. Finite 0) (tb_cost c)), c)),
     Factor_solve = (\<lambda>v c. (v, c)),
     Factor_solveL = (\<lambda>v c. (v, c)),
     Factor_solveLT = (\<lambda>v c. (v, c)),
     Factor_expand = (\<lambda>yp gyp l c. c),
     Factor_reduce = (\<lambda>d m b c. c),
     Factor_density = (\<lambda>c. Finite 0),
     Gradient_getGradient = (\<lambda>rt c. (toy_dense (toy_gradient rt c), c)),
     Gradient_update = (\<lambda>rt qp a c. c),
     ReducedCosts_getReducedCosts = (\<lambda>rt c. (toy_dense (toy_gradient rt c), c)),
     ReducedCosts_update = (\<lambda>rt c. c),
     ReducedGradient_get = (\<lambda>rt c. (toy_dense (toy_mask (tb_active c) (toy_gradient rt c)), c)),
     ReducedGradient_expand = (\<lambda>rt yp c. c),
     ReducedGradient_reduce = (\<lambda>rt d m c. c),
     ReducedGradient_update = (\<lambda>rt a b c. c),
     Pricing_price = (\<lambda>rt x g c. (toy_price (value g) (tb_active c), c)),
     Ratiotest_ratiotest = (\<lambda>rt x p ra rm msl c.
        (toy_ratiotest (num_con (instance rt)) (value x) (value p) msl, c))
   \<rparr>"

text \<open>A Runtime for one variable and no rows, \<open>Q = 0\<close>, with the given iteration limit,
  and a joint state with the given active and inactive indices and cost.\<close>

definition toy_stats :: Statistics where
  "toy_stats = \<lparr>num_iterations = 0, time_start = Finite 0, time_end = Finite 0, iteration = [],
     nullspacedimension = [], objval = [], time = [], sum_primal_infeasibilities = [],
     num_primal_infeasibilities = [], density_factor = [], density_nullspace = []\<rparr>"

definition toy_rt :: "int \<Rightarrow> (double list list) Runtime" where
  "toy_rt itlim = \<lparr>instance = \<lparr>num_var = 1, num_con = 0, A_matrix = [], Q_matrix = [[Finite 0]]\<rparr>,
     settings = \<lparr>iterationlimit = itlim, timelimit = Finite 100, reportingfequency = 1,
                 pnorm_zero_threshold = Finite (1 / 1000000), d_zero_threshold = Finite (1 / 1000000)\<rparr>,
     statistics = toy_stats, status = NOTSET,
     primal = toy_dense [Finite 0], rowactivity = toy_dense [],
     dualvar = toy_dense [Finite 0], dualcon = toy_dense []\<rparr>"

definition toy_b0 :: "int list \<Rightarrow> int list \<Rightarrow> double \<Rightarrow> toy" where
  "toy_b0 act inact c = \<lparr>tb_active = act, tb_inactive = inact, tb_cost = [c], tb_clock = Finite 0\<rparr>"


section \<open>Notions used in the statements\<close>


text \<open>What \<open>redcosts.getReducedCosts()\<close> returns after the loop, for the loop's final
  state \<open>s\<close>: the vector \<open>lambda\<close>, and the collaborators' state in which the active set is
  then read.\<close>

definition at_recovery :: "('c, 'm) collaborators \<Rightarrow> ('c, 'm) solver \<Rightarrow> Vector \<times> 'c" where
  "at_recovery E s =
     ReducedCosts_getReducedCosts E (runtime (final_log E s)) (coll (final_log E s))"

text \<open>The state before the first pass of the loop on the small collaborators: one
  variable with cost \<open>c\<close>, started at \<open>x\<close> with the given active and inactive indices and
  iteration limit.\<close>

definition toy_start ::
  "int list \<Rightarrow> int list \<Rightarrow> double \<Rightarrow> double \<Rightarrow> int \<Rightarrow> (toy, double list list) solver" where
  "toy_start act inact c x itlim =
     solve_init toyE (toy_dense [x]) (toy_dense []) (toy_b0 act inact c) (toy_rt itlim)"

text \<open>The collaborator calls made on the way from state \<open>s\<close> to state \<open>s'\<close>.\<close>

definition fresh_calls :: "('c, 'm) solver \<Rightarrow> ('c, 'm) solver \<Rightarrow> call list" where
  "fresh_calls s s' = drop (length (calls s)) (calls s')"

text \<open>The state of the small collaborators after the OnFace branch of the first pass,
  minimising \<open>x\<close> from \<open>x = 1\<close> with nothing active.\<close>

definition toy_onface :: "(toy, double list list) solver" where
  "toy_onface =
     (case onface toyE (toy_start [] [0] (Finite 1) (Finite 1) 10) of
        Inr s \<Rightarrow> s
      | Inl f \<Rightarrow> toy_start [] [0] (Finite 1) (Finite 1) 10)"

text \<open>The subscripts of the dual recovery are in range.\<close>

definition duals_in_range :: "int \<Rightarrow> int list \<Rightarrow> Vector \<Rightarrow> int list \<Rightarrow> Vector \<Rightarrow> Vector \<Rightarrow> bool" where
  "duals_in_range nc iif lambda es dv dc =
     list_all (\<lambda>e. 0 \<le> e \<and> e < int (length iif)
                 \<and> 0 \<le> iif ! nat e \<and> iif ! nat e < int (length (value lambda))
                 \<and> (if e \<ge> nc then e - nc < int (length (value dv))
                     else e < int (length (value dc)))) es"


text \<open>Position \<open>m\<close> holds a component of \<open>d\<close> of maximum magnitude: no component is
  greater in magnitude.\<close>

definition is_maxabs :: "Vector \<Rightarrow> int \<Rightarrow> bool" where
  "is_maxabs d m =
     (0 \<le> m \<and> m < int (length (value d))
      \<and> list_all (\<lambda>v. \<not> dgt (fabs v) (fabs (value d ! nat m))) (value d))"

text \<open>The invariant of a sparse vector: a position that \<open>index[0..num_nz)\<close> does not list
  holds 0.\<close>

definition sparse_ok :: "Vector \<Rightarrow> bool" where
  "sparse_ok d =
     list_all (\<lambda>j. int j \<in> set (take (nat (num_nz d)) (index d)) \<or> value d ! j = Finite 0)
       [0 ..< length (value d)]"

text \<open>Two variables bounded below by zero and one row \<open>3 x0 - 5 x1\<close> (index 0; the bounds
  have indices 1 and 2), with the given pivot threshold; the column of the transposed
  matrix is that row.\<close>

definition toyE_rows :: "(toy, double list list) collaborators" where
  "toyE_rows = toyE\<lparr>MatrixBase_extractcol := (\<lambda>M i. toy_dense [Finite 3, Finite (- 5)])\<rparr>"

definition toy_two :: "double \<Rightarrow> (toy, double list list) solver" where
  "toy_two thr =
     solve_init toyE_rows (toy_dense [Finite 0, Finite 0]) (toy_dense [Finite 0])
       \<lparr>tb_active = [], tb_inactive = [1, 2], tb_cost = [Finite 0, Finite 0], tb_clock = Finite 0\<rparr>
       \<lparr>instance = \<lparr>num_var = 2, num_con = 1, A_matrix = [[Finite 3, Finite (- 5)]],
                     Q_matrix = [[Finite 0, Finite 0], [Finite 0, Finite 0]]\<rparr>,
        settings = \<lparr>iterationlimit = 10, timelimit = Finite 100, reportingfequency = 1,
                    pnorm_zero_threshold = Finite (1 / 1000000), d_zero_threshold = thr\<rparr>,
        statistics = toy_stats, status = NOTSET,
        primal = toy_dense [Finite 0, Finite 0], rowactivity = toy_dense [Finite 0],
        dualvar = toy_dense [Finite 0, Finite 0], dualcon = toy_dense [Finite 0]\<rparr>"


section \<open>The loop terminates\<close>

text \<open>What no part of the loop body changes: the instance and the settings; and what
  only the increment in \<open>logging\<close> changes: the iteration counter.\<close>

definition frame :: "('c, 'm) solver \<Rightarrow> ('c, 'm) solver \<Rightarrow> bool" where
  "frame s s' = (instance (runtime s') = instance (runtime s) \<and> settings (runtime s') = settings (runtime s)
     \<and> num_iterations (statistics (runtime s')) = num_iterations (statistics (runtime s)))"

lemma frame_refl: "frame s s"
  by (simp add: frame_def)

lemma frame_trans: "frame s s1 \<Longrightarrow> frame s1 s2 \<Longrightarrow> frame s s2"
  by (simp add: frame_def)

lemma frame_invoke0: "frame s (invoke0 ev f s)"
  by (simp add: frame_def invoke0_def)

lemma frame_invoke: "invoke ev f s = (r, s') \<Longrightarrow> frame s s'"
  by (auto simp add: frame_def invoke_def split: prod.splits)

lemma frame_set_status: "frame s (set_status st s)"
  by (simp add: frame_def set_status_def)

lemma frame_loginformation: "frame s (loginformation E s)"
  by (simp add: frame_def loginformation_def invoke_def Let_def split: prod.splits)

lemma frame_tidyup: "tidyup E s = Inr s' \<Longrightarrow> frame s s'"
  by (auto simp add: frame_def tidyup_def split: sum.splits prod.splits)

lemma frame_minor: "frame s (computesearchdirection_minor E s)"
  by (simp add: frame_def computesearchdirection_minor_def invoke_def Let_def split: prod.splits)

lemma frame_major: "frame s (computesearchdirection_major E s)"
  by (simp add: frame_def computesearchdirection_major_def invoke_def Let_def split: prod.splits)

lemma frame_maxstep: "computemaxsteplength E z s = (m, z', s') \<Longrightarrow> frame s s'"
  by (auto simp add: frame_def computemaxsteplength_def invoke_def Let_def split: prod.splits if_splits)

lemma frame_reduce: "reduce E n s = Inr (a, b, s') \<Longrightarrow> frame s s'"
  by (auto simp add: frame_def reduce_def invoke_def Let_def split: prod.splits if_splits sum.splits)

lemma logging_counts: "logging E s = Inr s' \<Longrightarrow>
   instance (runtime s') = instance (runtime s) \<and> settings (runtime s') = settings (runtime s)
     \<and> num_iterations (statistics (runtime s')) = num_iterations (statistics (runtime s)) + 1"
  using frame_loginformation [of s E]
  by (auto simp add: logging_def frame_def invoke0_def Let_def split: if_splits)

lemma frame_major_direction:
  assumes "major_direction E minidx s = Inr s'" shows "frame s s'"
proof -
  from assms obtain unit where 3: "nth_chk (Basis_getindexinfactor E (coll s)) minidx = Inr unit"
    by (auto simp add: major_direction_def split: sum.splits)
  define yp0 where "yp0 = Vector_unit E (num_var (instance (runtime s))) unit (buffer_yp s)"
  obtain yp s3 where 4: "invoke Call_btran (Basis_btran E (runtime s) yp0 yp0 True minidx) s = (yp, s3)"
    by (cases "invoke Call_btran (Basis_btran E (runtime s) yp0 yp0 True minidx) s")
  define s4 where "s4 = s3\<lparr>buffer_yp := yp, buffer_l := (buffer_l s3)\<lparr>dim := Basis_getnuminactive E (coll s3)\<rparr>\<rparr>"
  define s5 where "s5 = computesearchdirection_major E s4"
  define s6 where "s6 = invoke0 (Call_deactivate minidx) (Basis_deactivate E (runtime s5) minidx) s5"
  define s7 where "s7 = s6\<lparr>rowmove := computerowmove E (runtime s6) (coll s6) (p_vec s6) (rowmove s6)\<rparr>"
  from assms 3 4 have 5: "tidyup E s7 = Inr s'"
    by (simp add: major_direction_def Let_def yp0_def s4_def s5_def s6_def s7_def)
  have f3: "frame s s3" using 4 by (rule frame_invoke)
  have f4: "frame s3 s4" by (simp add: frame_def s4_def)
  have f5: "frame s4 s5" unfolding s5_def by (rule frame_major)
  have f6: "frame s5 s6" unfolding s6_def by (rule frame_invoke0)
  have f7: "frame s6 s7" by (simp add: frame_def s7_def)
  have f8: "frame s7 s'" using 5 by (rule frame_tidyup)
  from f3 f4 f5 f6 f7 f8 show ?thesis by (simp add: frame_def)
qed

lemma frame_major_steplength:
  assumes "major_steplength E s = (z, m, s')" shows "frame s s'"
proof -
  define s9 where "s9 = s\<lparr>buffer_Qp := Matrix_mat_vec E (Q_matrix (instance (runtime s))) (p_vec s) (buffer_Qp s)\<rparr>"
  obtain msl zcd s10 where 6: "computemaxsteplength E False s9 = (msl, zcd, s10)"
    by (cases "computemaxsteplength E False s9") auto
  have f9: "frame s s9" by (simp add: frame_def s9_def)
  have f10: "frame s9 s10" using 6 by (rule frame_maxstep)
  have "frame s10 s'" using assms 6
    by (auto simp add: major_steplength_def Let_def s9_def frame_def invoke0_def split: if_splits)
  with f9 f10 show ?thesis by (simp add: frame_def)
qed

lemma frame_atvertex_Continue:
  assumes "atvertex E s = Inr (Continue (z, m, s'))" shows "frame s s'"
proof -
  obtain g s1 where 1: "invoke Call_getGradient (Gradient_getGradient E (runtime s)) s = (g, s1)"
    by (cases "invoke Call_getGradient (Gradient_getGradient E (runtime s)) s")
  obtain minidx s2 where 2: "invoke Call_price (Pricing_price E (runtime s1) (primal (runtime s1)) g) s1 = (minidx, s2)"
    by (cases "invoke Call_price (Pricing_price E (runtime s1) (primal (runtime s1)) g) s1")
  from assms 1 2 obtain s8 where 3: "major_direction E minidx s2 = Inr s8"
    and 4: "major_steplength E s8 = (z, m, s')"
    by (auto simp add: atvertex_def split: if_splits sum.splits)
  have "frame s s1" using 1 by (rule frame_invoke)
  moreover have "frame s1 s2" using 2 by (rule frame_invoke)
  moreover have "frame s2 s8" using 3 by (rule frame_major_direction)
  moreover have "frame s8 s'" using 4 by (rule frame_major_steplength)
  ultimately show ?thesis by (simp add: frame_def)
qed

lemma frame_onface: "onface E s = Inr s' \<Longrightarrow> frame s s'"
  using frame_minor [of s E]
  by (auto simp add: onface_def Let_def frame_def dest!: frame_tidyup)

lemma frame_blocked: 
  assumes "blocked E z r s = Inr s'" shows "frame s s'"
proof -
  from assms obtain a b s1 where 1: "reduce E (limitingconstraint r) s = Inr (a, b, s1)"
    by (auto simp add: blocked_def split: sum.splits)
  have "frame s s1" using 1 by (rule frame_reduce)
  moreover have "frame s1 s'" using assms 1
    by (auto simp add: blocked_def Let_def frame_def invoke0_def split: if_splits)
  ultimately show ?thesis by (rule frame_trans)
qed

lemma frame_unblocked: "frame s (unblocked E r s)"
  by (simp add: unblocked_def Let_def frame_def invoke0_def set_status_def)

lemma frame_takestep:
  assumes "takestep E z m s = Inr s'" shows "frame s s'"
proof (cases "dlt (Vector_norm2 E (p_vec s)) (pnorm_zero_threshold (settings (runtime s))) \<or> deq m (Finite 0)")
  case True
  with assms show ?thesis by (auto simp add: takestep_def frame_def)
next
  case False
  obtain r s1 where 1: "invoke Call_ratiotest (Ratiotest_ratiotest E (runtime s) (primal (runtime s)) (p_vec s)
                   (rowactivity (runtime s)) (rowmove s) m) s = (r, s1)"
    by (cases "invoke Call_ratiotest (Ratiotest_ratiotest E (runtime s) (primal (runtime s)) (p_vec s)
                   (rowactivity (runtime s)) (rowmove s) m) s")
  have f1: "frame s s1" using 1 by (rule frame_invoke)
  from assms False 1 obtain s2 where 2: "(if limitingconstraint r \<noteq> - 1 then blocked E z r s1 else Inr (unblocked E r s1)) = Inr s2"
    by (auto simp add: takestep_def split: sum.splits)
  have f2: "frame s1 s2" using 2 frame_blocked [of E z r s1 s2] frame_unblocked [of s1 E r]
    by (auto split: if_splits)
  have "frame s2 s'" using assms False 1 2
    by (simp add: takestep_def Let_def frame_def invoke0_def del: if_split split: sum.splits, auto)
  with f1 f2 show ?thesis by (simp add: frame_def)
qed

lemma iteration_Continue:
  assumes "iteration E s = Inr (Continue s')"
  shows "instance (runtime s') = instance (runtime s) \<and> settings (runtime s') = settings (runtime s)
     \<and> num_iterations (statistics (runtime s')) = num_iterations (statistics (runtime s)) + 1
     \<and> num_iterations (statistics (runtime s)) < iterationlimit (settings (runtime s))"
proof -
  from assms have lim: "num_iterations (statistics (runtime s)) < iterationlimit (settings (runtime s))"
    by (auto simp add: iteration_def split: if_splits)
  obtain t s1 where 1: "invoke Call_readRunHighsClock (Timer_readRunHighsClock E) s = (t, s1)"
    by (cases "invoke Call_readRunHighsClock (Timer_readRunHighsClock E) s")
  have f1: "frame s s1" using 1 by (rule frame_invoke)
  from assms lim 1 have nt: "\<not> dge t (timelimit (settings (runtime s1)))"
    by (auto simp add: iteration_def split: if_splits)
  from assms lim 1 nt obtain s2 where 2: "logging E s1 = Inr s2"
    by (auto simp add: iteration_def split: sum.splits)
  note l2 = logging_counts [OF 2]
  have "frame s2 s'"
  proof (cases "atfsep s2")
    case True
    with assms lim 1 nt 2 obtain z m s3 where 3: "atvertex E s2 = Inr (Continue (z, m, s3))"
      and 4: "takestep E z m s3 = Inr s'"
      by (auto simp add: iteration_def split: sum.splits loopctl.splits)
    from frame_atvertex_Continue [OF 3] frame_takestep [OF 4] show ?thesis by (rule frame_trans)
  next
    case False
    with assms lim 1 nt 2 obtain s3 where 3: "onface E s2 = Inr s3"
      and 4: "takestep E False (Finite 1) s3 = Inr s'"
      by (auto simp add: iteration_def split: sum.splits)
    from frame_onface [OF 3] frame_takestep [OF 4] show ?thesis by (rule frame_trans)
  qed
  with f1 l2 lim show ?thesis by (simp add: frame_def)
qed

text \<open>\<open>while (true)\<close>: the loop runs the body until it breaks. Each pass that goes on
  has found the counter below the limit and has raised it by one, so the distance to
  the limit is a measure.\<close>

function loop :: "('c, 'm) collaborators \<Rightarrow> ('c, 'm) solver \<Rightarrow> fault + ('c, 'm) solver" where
  "loop E s =
     (case iteration E s of
        Inl f \<Rightarrow> Inl f
      | Inr (Break s') \<Rightarrow> Inr s'
      | Inr (Continue s') \<Rightarrow> loop E s')"
  by pat_completeness auto
termination
proof (relation "measure (\<lambda>(E, s). nat (iterationlimit (settings (runtime s)) - num_iterations (statistics (runtime s))))")
  show "wf (measure (\<lambda>(E, s). nat (iterationlimit (settings (runtime s)) - num_iterations (statistics (runtime s)))))"
    by simp
next
  fix E :: "('c, 'm) collaborators" and s :: "('c, 'm) solver" and x s'
  assume "iteration E s = Inr x" and "x = Continue s'"
  then have "iteration E s = Inr (Continue s')" by simp
  from iteration_Continue [OF this]
  show "((E, s'), (E, s)) \<in> measure (\<lambda>(E, s). nat (iterationlimit (settings (runtime s)) - num_iterations (statistics (runtime s))))"
    by simp
qed

text \<open>The equation of \<open>loop\<close> unfolds without end: it is used only where it is named.\<close>

declare loop.simps [simp del]

text \<open>\<open>Solver::solve(const Vector& x0, const Vector& ra, Basis& b0)\<close>.\<close>

definition solve ::
  "('c, 'm) collaborators \<Rightarrow> Vector \<Rightarrow> Vector \<Rightarrow> 'c \<Rightarrow> 'm Runtime \<Rightarrow> fault + ('c, 'm) solver" where
  "solve E x0 ra b0 rt0 =
     (case loop E (solve_init E x0 ra b0 rt0) of
        Inl f \<Rightarrow> Inl f
      | Inr s \<Rightarrow> solve_finish E s)"


section \<open>Properties\<close>

subsection \<open>\<open>computerowmove\<close> is the plain product\<close>

text \<open>
  C9. For every basis state \<open>b\<close> and every direction \<open>p\<close>, \<open>computerowmove\<close> leaves in
  \<open>rowmove\<close> the plain matrix-vector product \<open>A p\<close>: the statements after its first
  \<open>return\<close> (the product through the transpose, and the loop that depends on the basis
  status and zeroes the rows that are not \<open>Default\<close>) are never reached, whatever they
  would compute.
\<close>

theorem computerowmove_is_plain_product:
  "computerowmove E rt b p rm = rowmove_is_A_times_p E rt p rm"
  by (simp add: computerowmove_def rowmove_is_A_times_p_def then_stmt_def end_of_body_def)

subsection \<open>\<open>haveCommonClique\<close> on one column\<close>

text \<open>
  C10. For clique variables \<open>v1\<close> and \<open>v2\<close> of the same column, both overloads of
  \<open>haveCommonClique\<close> return \<open>false\<close> and leave the table (and the query counter) as it
  was, whatever \<open>findCommonCliqueId\<close> would have answered: the stored clique sets are not
  consulted. A literal and its complement are such a pair.
\<close>

theorem haveCommonClique_same_col:
  "col v1 = col v2 \<Longrightarrow>
     haveCommonClique fcc T v1 v2 = (False, T)
   \<and> haveCommonClique_numQueries fcc nq T v1 v2 = (False, nq, T)
   \<and> haveCommonClique fcc T v1 (complement v1) = (False, T)
   \<and> haveCommonClique_numQueries fcc nq T v1 (complement v1) = (False, nq, T)"
  by (simp add: haveCommonClique_def haveCommonClique_numQueries_def complement_def)

text \<open>An instance: column 3, the literal and its complement, against a lookup that
  would report clique 7 for every pair.\<close>

theorem haveCommonClique_same_col_witness:
  "col \<lparr>col = 3, val = 0\<rparr> = col \<lparr>col = 3, val = 1\<rparr>
   \<and> haveCommonClique (\<lambda>nq a b cs. (7, nq + 1, cs))
        \<lparr>numNeighborhoodQueries = 0, cliquestore = ()\<rparr> \<lparr>col = 3, val = 0\<rparr> \<lparr>col = 3, val = 1\<rparr>
       = (False, \<lparr>numNeighborhoodQueries = 0, cliquestore = ()\<rparr>)
   \<and> complement \<lparr>col = 3, val = 0\<rparr> = \<lparr>col = 3, val = 1\<rparr>"
  using haveCommonClique_same_col
    [of "\<lparr>col = 3, val = 0\<rparr>" "\<lparr>col = 3, val = 1\<rparr>" "\<lambda>nq a b cs. (7, nq + 1, cs)"
        "\<lparr>numNeighborhoodQueries = 0, cliquestore = ()\<rparr>" 0]
  by (simp add: complement_def)

subsection \<open>Recovery of the duals and of the primal point\<close>





lemma final_log_keeps:
  "instance (runtime (final_log E s)) = instance (runtime s)
   \<and> status (runtime (final_log E s)) = status (runtime s)
   \<and> primal (runtime (final_log E s)) = primal (runtime s)
   \<and> dualvar (runtime (final_log E s)) = dualvar (runtime s)
   \<and> dualcon (runtime (final_log E s)) = dualcon (runtime s)"
  by (simp add: final_log_def loginformation_def invoke_def invoke0_def Let_def split: prod.splits)




subsection \<open>Pricing finds no index\<close>

lemma invoke_keeps:
  "invoke ev f s = (r, s') \<Longrightarrow>
     runtime s' = runtime s \<and> atfsep s' = atfsep s \<and> calls s' = calls s @ [ev] \<and> p_vec s' = p_vec s
     \<and> rowmove s' = rowmove s \<and> buffer_Qp s' = buffer_Qp s"
  by (auto simp add: invoke_def split: prod.splits)

lemma invoke0_keeps:
  "runtime (invoke0 ev f s) = runtime s \<and> atfsep (invoke0 ev f s) = atfsep s
   \<and> calls (invoke0 ev f s) = calls s @ [ev] \<and> p_vec (invoke0 ev f s) = p_vec s
   \<and> rowmove (invoke0 ev f s) = rowmove s \<and> buffer_Qp (invoke0 ev f s) = buffer_Qp s"
  by (simp add: invoke0_def)

lemma logging_keeps:
  "logging E s = Inr s' \<Longrightarrow>
     atfsep s' = atfsep s \<and> status (runtime s') = status (runtime s)
     \<and> primal (runtime s') = primal (runtime s) \<and> rowactivity (runtime s') = rowactivity (runtime s)
     \<and> dualvar (runtime s') = dualvar (runtime s) \<and> dualcon (runtime s') = dualcon (runtime s)
     \<and> (calls s' = calls s \<or> calls s' = calls s @ [Call_readRunHighsClock, Call_fire])"
  by (auto simp add: logging_def loginformation_def invoke_def invoke0_def Let_def
      split: if_splits prod.splits)

text \<open>
  C3. A pass of the loop body that starts in the AtVertex state (\<open>atfsep\<close>), passes the
  limit checks and the logging block, and in which pricing returns \<open>-1\<close>: the body breaks
  out of the loop in the state \<open>s4\<close> in which pricing returned, with status \<open>OPTIMAL\<close>.
  Nothing is called after pricing: the calls of the pass are clock reads, the event,
  \<open>getGradient\<close> and \<open>price\<close>, so there is no \<open>deactivate\<close>, no \<open>expand\<close> or \<open>reduce\<close> of the
  factor, and the primal point and the row activity are those the pass started with.
\<close>

theorem pricing_none_is_optimal:
  assumes lim: "num_iterations (statistics (runtime s)) < iterationlimit (settings (runtime s))"
    and clk: "invoke Call_readRunHighsClock (Timer_readRunHighsClock E) s = (t, s1)"
    and tl: "\<not> dge t (timelimit (settings (runtime s1)))"
    and lg: "logging E s1 = Inr s2"
    and av: "atfsep s"
    and gr: "invoke Call_getGradient (Gradient_getGradient E (runtime s2)) s2 = (g, s3)"
    and pr: "invoke Call_price (Pricing_price E (runtime s3) (primal (runtime s3)) g) s3 = (- 1, s4)"
  shows "iteration E s = Inr (Break (set_status OPTIMAL s4))
       \<and> status (runtime (set_status OPTIMAL s4)) = OPTIMAL
       \<and> calls (set_status OPTIMAL s4) = calls s2 @ [Call_getGradient, Call_price]
       \<and> set (drop (length (calls s)) (calls (set_status OPTIMAL s4)))
           \<subseteq> {Call_readRunHighsClock, Call_fire, Call_getGradient, Call_price}
       \<and> primal (runtime (set_status OPTIMAL s4)) = primal (runtime s)
       \<and> rowactivity (runtime (set_status OPTIMAL s4)) = rowactivity (runtime s)"
proof -
  note k1 = invoke_keeps [OF clk]
  note k2 = logging_keeps [OF lg]
  note k3 = invoke_keeps [OF gr]
  note k4 = invoke_keeps [OF pr]
  from av k1 k2 have av2: "atfsep s2" by simp
  from gr pr have "atvertex E s2 = Inr (Break (set_status OPTIMAL s4))"
    by (simp add: atvertex_def)
  with lim clk tl lg av2 have it: "iteration E s = Inr (Break (set_status OPTIMAL s4))"
    by (simp add: iteration_def)
  have st: "status (runtime (set_status OPTIMAL s4)) = OPTIMAL"
    by (simp add: set_status_def)
  have c4: "calls (set_status OPTIMAL s4) = calls s2 @ [Call_getGradient, Call_price]"
    using k3 k4 by (simp add: set_status_def)
  from k2 k1 have "calls s2 = calls s @ [Call_readRunHighsClock]
     \<or> calls s2 = calls s @ [Call_readRunHighsClock, Call_readRunHighsClock, Call_fire]"
    by auto
  with c4 have sub: "set (drop (length (calls s)) (calls (set_status OPTIMAL s4)))
           \<subseteq> {Call_readRunHighsClock, Call_fire, Call_getGradient, Call_price}"
    by auto
  have pp: "primal (runtime (set_status OPTIMAL s4)) = primal (runtime s)"
      "rowactivity (runtime (set_status OPTIMAL s4)) = rowactivity (runtime s)"
    using k1 k2 k3 k4 by (simp_all add: set_status_def)
  from it st c4 sub pp show ?thesis by simp
qed

text \<open>An instance: minimise \<open>x\<close> over \<open>x \<ge> 0\<close>, started on the bound.\<close>

theorem pricing_none_is_optimal_witness:
  "(case iteration toyE (toy_start [0] [] (Finite 1) (Finite 0) 10) of
      Inr (Break s') \<Rightarrow>
        status (runtime s') = OPTIMAL
        \<and> primal (runtime s') = primal (runtime (toy_start [0] [] (Finite 1) (Finite 0) 10))
        \<and> Call_deactivate 0 \<notin> set (drop 3 (calls s'))
    | _ \<Rightarrow> False)"
proof -
  define s where "s = toy_start [0] [] (Finite 1) (Finite 0) 10"
  define t where "t = fst (invoke Call_readRunHighsClock (Timer_readRunHighsClock toyE) s)"
  define s1 where "s1 = snd (invoke Call_readRunHighsClock (Timer_readRunHighsClock toyE) s)"
  define s2 where "s2 = projr (logging toyE s1)"
  define g where "g = fst (invoke Call_getGradient (Gradient_getGradient toyE (runtime s2)) s2)"
  define s3 where "s3 = snd (invoke Call_getGradient (Gradient_getGradient toyE (runtime s2)) s2)"
  define s4 where "s4 = snd (invoke Call_price (Pricing_price toyE (runtime s3) (primal (runtime s3)) g) s3)"
  have lim: "num_iterations (statistics (runtime s)) < iterationlimit (settings (runtime s))"
    unfolding s_def by code_simp
  have clk: "invoke Call_readRunHighsClock (Timer_readRunHighsClock toyE) s = (t, s1)"
    by (simp add: t_def s1_def)
  have tl: "\<not> dge t (timelimit (settings (runtime s1)))"
    unfolding t_def s1_def s_def by code_simp
  have "\<not> isl (logging toyE s1)"
    unfolding s1_def s_def by code_simp
  then have lg: "logging toyE s1 = Inr s2"
    by (simp add: s2_def)
  have av: "atfsep s"
    unfolding s_def by code_simp
  have gr: "invoke Call_getGradient (Gradient_getGradient toyE (runtime s2)) s2 = (g, s3)"
    by (simp add: g_def s3_def)
  have "fst (invoke Call_price (Pricing_price toyE (runtime s3) (primal (runtime s3)) g) s3) = - 1"
    unfolding g_def s3_def s2_def s1_def s_def by code_simp
  then have pr: "invoke Call_price (Pricing_price toyE (runtime s3) (primal (runtime s3)) g) s3 = (- 1, s4)"
    by (simp add: s4_def prod_eq_iff)
  have len: "length (calls s) = 3"
    unfolding s_def by code_simp
  have "Call_deactivate 0 \<notin> {Call_readRunHighsClock, Call_fire, Call_getGradient, Call_price}"
    by simp
  with pricing_none_is_optimal [OF lim clk tl lg av gr pr] len show ?thesis
    by (auto simp add: s_def)
qed

subsection \<open>A direction of zero curvature\<close>

lemma fresh_calls_append: "calls s' = calls s @ ev \<Longrightarrow> fresh_calls s s' = ev"
  by (simp add: fresh_calls_def)

lemma tidyup_keeps:
  "tidyup E s = Inr s' \<Longrightarrow> calls s' = calls s \<and> runtime s' = runtime s \<and> coll s' = coll s
     \<and> atfsep s' = atfsep s \<and> buffer_Qp s' = buffer_Qp s \<and> buffer_yp s' = buffer_yp s"
  by (auto simp add: tidyup_def split: sum.splits prod.splits)

lemma major_calls:
  "\<exists>ev. calls (computesearchdirection_major E s) = calls s @ ev
        \<and> set ev \<subseteq> {Call_Ztprod, Call_solveL, Call_solveLT, Call_Zprod, Call_getGradient}"
  by (simp add: computesearchdirection_major_def invoke_def Let_def split: prod.splits)

lemma major_direction_calls:
  assumes "major_direction E minidx s = Inr s'"
  shows "\<exists>ev. calls s' = calls s @ ev
        \<and> set ev \<subseteq> {Call_btran, Call_Ztprod, Call_solveL, Call_solveLT, Call_Zprod,
                     Call_getGradient, Call_deactivate minidx}"
proof -
  from assms obtain unit where 3: "nth_chk (Basis_getindexinfactor E (coll s)) minidx = Inr unit"
    by (auto simp add: major_direction_def split: sum.splits)
  define yp0 where "yp0 = Vector_unit E (num_var (instance (runtime s))) unit (buffer_yp s)"
  obtain yp s3 where 4: "invoke Call_btran (Basis_btran E (runtime s) yp0 yp0 True minidx) s = (yp, s3)"
    by (cases "invoke Call_btran (Basis_btran E (runtime s) yp0 yp0 True minidx) s")
  define s4 where "s4 = s3\<lparr>buffer_yp := yp, buffer_l := (buffer_l s3)\<lparr>dim := Basis_getnuminactive E (coll s3)\<rparr>\<rparr>"
  define s5 where "s5 = computesearchdirection_major E s4"
  define s6 where "s6 = invoke0 (Call_deactivate minidx) (Basis_deactivate E (runtime s5) minidx) s5"
  define s7 where "s7 = s6\<lparr>rowmove := computerowmove E (runtime s6) (coll s6) (p_vec s6) (rowmove s6)\<rparr>"
  from assms 3 4 have 5: "tidyup E s7 = Inr s'"
    by (simp add: major_direction_def Let_def yp0_def s4_def s5_def s6_def s7_def)
  from 4 have c4: "calls s4 = calls s @ [Call_btran]"
    by (auto simp add: invoke_def s4_def split: prod.splits)
  from major_calls [of E s4] obtain ev where
    c5: "calls s5 = calls s4 @ ev"
    and ev: "set ev \<subseteq> {Call_Ztprod, Call_solveL, Call_solveLT, Call_Zprod, Call_getGradient}"
    unfolding s5_def by blast
  have c7: "calls s7 = calls s5 @ [Call_deactivate minidx]"
    by (simp add: s7_def s6_def invoke0_def)
  from tidyup_keeps [OF 5] c4 c5 c7
  have "calls s' = calls s @ (Call_btran # ev @ [Call_deactivate minidx])" by simp
  moreover from ev have "set (Call_btran # ev @ [Call_deactivate minidx])
      \<subseteq> {Call_btran, Call_Ztprod, Call_solveL, Call_solveLT, Call_Zprod,
                     Call_getGradient, Call_deactivate minidx}" by auto
  ultimately show ?thesis by blast
qed

lemma major_steplength_props:
  assumes "major_steplength E s = (zcd, msl, s')"
  shows "p_vec s' = p_vec s
       \<and> buffer_Qp s' = Matrix_mat_vec E (Q_matrix (instance (runtime s))) (p_vec s)
                          (Matrix_mat_vec E (Q_matrix (instance (runtime s))) (p_vec s) (buffer_Qp s))
       \<and> zcd = (\<not> dgt (fabs (Vector_times E (p_vec s') (buffer_Qp s'))) lit_10Em5)
       \<and> (if zcd then msl = PInf \<and> calls s' = calls s @ [Call_redgrad_expand]
                       \<and> coll s' = ReducedGradient_expand E (runtime s) (buffer_yp s) (coll s)
           else calls s' = calls s @ [Call_getGradient, Call_factor_expand, Call_redgrad_expand])"
  using assms
  by (auto simp add: major_steplength_def computemaxsteplength_def invoke_def invoke0_def Let_def
      split: if_splits prod.splits)

lemma logging_locals:
  "logging E s = Inr s' \<Longrightarrow>
     p_vec s' = p_vec s \<and> buffer_Qp s' = buffer_Qp s \<and> instance (runtime s') = instance (runtime s)"
  by (auto simp add: logging_def loginformation_def invoke_def invoke0_def Let_def
      split: if_splits prod.splits)

lemma major_keeps:
  "atfsep (computesearchdirection_major E s) = atfsep s
   \<and> runtime (computesearchdirection_major E s) = runtime s
   \<and> buffer_Qp (computesearchdirection_major E s) = buffer_Qp s"
  by (simp add: computesearchdirection_major_def invoke_def Let_def split: prod.splits)

lemma minor_keeps:
  "atfsep (computesearchdirection_minor E s) = atfsep s
   \<and> runtime (computesearchdirection_minor E s) = runtime s"
  by (simp add: computesearchdirection_minor_def invoke_def Let_def split: prod.splits)

lemma major_direction_keeps:
  assumes "major_direction E minidx s = Inr s'"
  shows "atfsep s' = atfsep s \<and> runtime s' = runtime s \<and> buffer_Qp s' = buffer_Qp s"
proof -
  from assms obtain unit where 3: "nth_chk (Basis_getindexinfactor E (coll s)) minidx = Inr unit"
    by (auto simp add: major_direction_def split: sum.splits)
  define yp0 where "yp0 = Vector_unit E (num_var (instance (runtime s))) unit (buffer_yp s)"
  obtain yp s3 where 4: "invoke Call_btran (Basis_btran E (runtime s) yp0 yp0 True minidx) s = (yp, s3)"
    by (cases "invoke Call_btran (Basis_btran E (runtime s) yp0 yp0 True minidx) s")
  define s4 where "s4 = s3\<lparr>buffer_yp := yp, buffer_l := (buffer_l s3)\<lparr>dim := Basis_getnuminactive E (coll s3)\<rparr>\<rparr>"
  define s5 where "s5 = computesearchdirection_major E s4"
  define s6 where "s6 = invoke0 (Call_deactivate minidx) (Basis_deactivate E (runtime s5) minidx) s5"
  define s7 where "s7 = s6\<lparr>rowmove := computerowmove E (runtime s6) (coll s6) (p_vec s6) (rowmove s6)\<rparr>"
  from assms 3 4 have 5: "tidyup E s7 = Inr s'"
    by (simp add: major_direction_def Let_def yp0_def s4_def s5_def s6_def s7_def)
  from invoke_keeps [OF 4] have k4: "atfsep s4 = atfsep s" "runtime s4 = runtime s" "buffer_Qp s4 = buffer_Qp s"
    by (simp_all add: s4_def)
  from major_keeps [of E s4] have k5: "atfsep s5 = atfsep s4" "runtime s5 = runtime s4" "buffer_Qp s5 = buffer_Qp s4"
    by (simp_all add: s5_def)
  have k7: "atfsep s7 = atfsep s5" "runtime s7 = runtime s5" "buffer_Qp s7 = buffer_Qp s5"
    by (simp_all add: s7_def s6_def invoke0_def)
  from tidyup_keeps [OF 5] k4 k5 k7 show ?thesis by simp
qed

lemma major_steplength_keeps:
  "major_steplength E s = (zcd, msl, s') \<Longrightarrow> atfsep s' = atfsep s \<and> runtime s' = runtime s"
  by (auto simp add: major_steplength_def computemaxsteplength_def invoke_def invoke0_def Let_def
      split: if_splits prod.splits)

lemma atvertex_Continue_parts:
  assumes "atvertex E s = Inr (Continue (zcd, msl, s'))"
  obtains g s1 minidx s2 s8 where
    "invoke Call_getGradient (Gradient_getGradient E (runtime s)) s = (g, s1)"
    "invoke Call_price (Pricing_price E (runtime s1) (primal (runtime s1)) g) s1 = (minidx, s2)"
    "major_direction E minidx s2 = Inr s8"
    "major_steplength E s8 = (zcd, msl, s')"
proof -
  obtain g s1 where 1: "invoke Call_getGradient (Gradient_getGradient E (runtime s)) s = (g, s1)"
    by (cases "invoke Call_getGradient (Gradient_getGradient E (runtime s)) s")
  obtain minidx s2 where 2: "invoke Call_price (Pricing_price E (runtime s1) (primal (runtime s1)) g) s1 = (minidx, s2)"
    by (cases "invoke Call_price (Pricing_price E (runtime s1) (primal (runtime s1)) g) s1")
  from assms 1 2 obtain s8 where 3: "major_direction E minidx s2 = Inr s8"
    and 4: "major_steplength E s8 = (zcd, msl, s')"
    by (auto simp add: atvertex_def split: if_splits sum.splits)
  from 1 2 3 4 that show ?thesis by blast
qed

lemma atvertex_keeps:
  assumes "atvertex E s = Inr (Continue (zcd, msl, s'))"
  shows "atfsep s' = atfsep s \<and> runtime s' = runtime s
       \<and> buffer_Qp s' = Matrix_mat_vec E (Q_matrix (instance (runtime s))) (p_vec s')
                          (Matrix_mat_vec E (Q_matrix (instance (runtime s))) (p_vec s') (buffer_Qp s))"
proof -
  from assms obtain g s1 minidx s2 s8 where
    1: "invoke Call_getGradient (Gradient_getGradient E (runtime s)) s = (g, s1)"
    and 2: "invoke Call_price (Pricing_price E (runtime s1) (primal (runtime s1)) g) s1 = (minidx, s2)"
    and 3: "major_direction E minidx s2 = Inr s8"
    and 4: "major_steplength E s8 = (zcd, msl, s')"
    by (rule atvertex_Continue_parts)
  from invoke_keeps [OF 1] invoke_keeps [OF 2] major_direction_keeps [OF 3]
  have k8: "atfsep s8 = atfsep s" "runtime s8 = runtime s" "buffer_Qp s8 = buffer_Qp s"
    by simp_all
  from major_steplength_props [OF 4] major_steplength_keeps [OF 4] k8 show ?thesis
    by simp
qed

lemma reduce_calls:
  "reduce E n s = Inr (a, b, s') \<Longrightarrow> calls s' = calls s \<or> calls s' = calls s @ [Call_Ztprod]"
  by (auto simp add: reduce_def invoke_def Let_def split: if_splits sum.splits prod.splits)

lemma blocked_calls:
  assumes "blocked E zcd r s = Inr s'"
  shows "\<exists>ev. calls s' = calls s @ ev
           \<and> Call_factor_expand \<notin> set ev \<and> Call_redgrad_expand \<notin> set ev"
proof -
  from assms obtain a b s1 where 1: "reduce E (limitingconstraint r) s = Inr (a, b, s1)"
    by (auto simp add: blocked_def split: sum.splits)
  from reduce_calls [OF 1] obtain e0 where e0: "calls s1 = calls s @ e0" "set e0 \<subseteq> {Call_Ztprod}"
    by auto
  define ev where "ev = e0 @ (if \<not> zcd then [Call_factor_reduce] else [])
     @ [Call_redgrad_reduce, Call_redgrad_update, Call_activate (limitingconstraint r) b]"
  from assms 1 have "calls s' = calls s1 @ (if \<not> zcd then [Call_factor_reduce] else [])
     @ [Call_redgrad_reduce, Call_redgrad_update, Call_activate (limitingconstraint r) b]"
    by (cases zcd) (auto simp add: blocked_def Let_def invoke0_def split: if_splits)
  with e0 have "calls s' = calls s @ ev" by (simp add: ev_def)
  moreover from e0 have "Call_factor_expand \<notin> set ev \<and> Call_redgrad_expand \<notin> set ev"
    by (auto simp add: ev_def)
  ultimately show ?thesis by blast
qed

lemma takestep_calls:
  assumes "takestep E zcd msl s = Inr s'"
  shows "\<exists>ev. calls s' = calls s @ ev
           \<and> Call_factor_expand \<notin> set ev \<and> Call_redgrad_expand \<notin> set ev"
proof (cases "dlt (Vector_norm2 E (p_vec s)) (pnorm_zero_threshold (settings (runtime s))) \<or> deq msl (Finite 0)")
  case True
  with assms have "calls s' = calls s @ []" by (auto simp add: takestep_def)
  then show ?thesis by (intro exI [of _ "[]"]) simp
next
  case False
  obtain r s1 where 1: "invoke Call_ratiotest (Ratiotest_ratiotest E (runtime s) (primal (runtime s)) (p_vec s)
                   (rowactivity (runtime s)) (rowmove s) msl) s = (r, s1)"
    by (cases "invoke Call_ratiotest (Ratiotest_ratiotest E (runtime s) (primal (runtime s)) (p_vec s)
                   (rowactivity (runtime s)) (rowmove s) msl) s")
  from invoke_keeps [OF 1] have c1: "calls s1 = calls s @ [Call_ratiotest]" by simp
  from assms False 1 obtain s2 where 2: "(if limitingconstraint r \<noteq> - 1 then blocked E zcd r s1 else Inr (unblocked E r s1)) = Inr s2"
    by (auto simp add: takestep_def split: sum.splits)
  have "\<exists>ev. calls s2 = calls s1 @ ev \<and> Call_factor_expand \<notin> set ev \<and> Call_redgrad_expand \<notin> set ev"
  proof (cases "limitingconstraint r \<noteq> - 1")
    case True
    with 2 have "blocked E zcd r s1 = Inr s2" by simp
    from blocked_calls [OF this] show ?thesis .
  next
    case False
    with 2 have "s2 = unblocked E r s1" by simp
    then have "calls s2 = calls s1 @ [Call_redgrad_update]"
      by (simp add: unblocked_def Let_def invoke0_def set_status_def)
    then show ?thesis by simp
  qed
  then obtain ev where ev: "calls s2 = calls s1 @ ev" "Call_factor_expand \<notin> set ev" "Call_redgrad_expand \<notin> set ev"
    by blast
  from assms False 1 have "(case (if limitingconstraint r \<noteq> - 1 then blocked E zcd r s1
                    else Inr (unblocked E r s1)) of
                Inl f \<Rightarrow> Inl f
              | Inr s2 \<Rightarrow>
                (let s3 = invoke0 Call_gradient_update
                            (Gradient_update E (runtime s2) (buffer_Qp s2) (alpha r)) s2;
                     s4 = invoke0 Call_redcosts_update (ReducedCosts_update E (runtime s3)) s3;
                     rt4 = runtime s4;
                     x' = Vector_saxpy E (primal rt4) (alpha r) (p_vec s4);
                     ra' = Vector_saxpy E (rowactivity rt4) (alpha r) (rowmove s4)
                 in Inr (s4\<lparr>runtime := rt4\<lparr>primal := x', rowactivity := ra'\<rparr>\<rparr>))) = Inr s'"
    by (simp add: takestep_def del: if_split)
  then have "calls s' = calls s2 @ [Call_gradient_update, Call_redcosts_update]"
    unfolding 2 by (auto simp add: Let_def invoke0_def)
  with c1 ev have "calls s' = calls s @ (Call_ratiotest # ev @ [Call_gradient_update, Call_redcosts_update])"
    by simp
  moreover from ev have "Call_factor_expand \<notin> set (Call_ratiotest # ev @ [Call_gradient_update, Call_redcosts_update])"
    "Call_redgrad_expand \<notin> set (Call_ratiotest # ev @ [Call_gradient_update, Call_redcosts_update])"
    by simp_all
  ultimately show ?thesis by blast
qed

text \<open>
  C5, as the code has it. Take a pass of the loop that starts in the AtVertex state, passes
  both limit checks and the logging block, and in which pricing returns an index, so that
  the branch computes the major search direction \<open>p\<close> and a step length and hands them to
  the rest of the body (the ratio test and the update). The buffer \<open>buffer_Qp\<close> then holds
  the product \<open>Q p\<close> of \<open>instance.Q\<close> and \<open>p\<close> (computed twice into the same buffer, as the
  code does), and the direction is flagged as a zero-curvature direction exactly when the
  curvature term \<open>p (Q p)\<close> is not above \<open>10E-5\<close> in magnitude. Then the maximum step
  length is \<open>+infinity\<close> and the factorization's \<open>expand\<close> is called nowhere in the pass,
  neither in the branch nor in the rest of the body, while the reduced gradient's \<open>expand\<close>
  is called all the same. (With curvature above the threshold both are called.)
\<close>

theorem zero_curvature_direction_at_vertex:
  assumes lim: "num_iterations (statistics (runtime s)) < iterationlimit (settings (runtime s))"
    and clk: "invoke Call_readRunHighsClock (Timer_readRunHighsClock E) s = (t, s1)"
    and tl: "\<not> dge t (timelimit (settings (runtime s1)))"
    and lg: "logging E s1 = Inr s2"
    and av: "atfsep s"
    and at: "atvertex E s2 = Inr (Continue (zcd, msl, sm))"
  shows "iteration E s =
           (case takestep E zcd msl sm of Inl f \<Rightarrow> Inl f | Inr s' \<Rightarrow> Inr (Continue s'))
       \<and> buffer_Qp sm =
           Matrix_mat_vec E (Q_matrix (instance (runtime s))) (p_vec sm)
             (Matrix_mat_vec E (Q_matrix (instance (runtime s))) (p_vec sm) (buffer_Qp s))
       \<and> zcd = (\<not> dgt (fabs (Vector_times E (p_vec sm) (buffer_Qp sm))) lit_10Em5)
       \<and> (if zcd
           then msl = PInf
                \<and> Call_factor_expand \<notin> set (fresh_calls s sm)
                \<and> Call_redgrad_expand \<in> set (fresh_calls s sm)
                \<and> (\<forall>s'. takestep E zcd msl sm = Inr s' \<longrightarrow>
                      Call_factor_expand \<notin> set (fresh_calls s s')
                      \<and> Call_redgrad_expand \<in> set (fresh_calls s s'))
           else Call_factor_expand \<in> set (fresh_calls s sm)
                \<and> Call_redgrad_expand \<in> set (fresh_calls s sm))"
proof -
  note k1 = invoke_keeps [OF clk]
  note k2 = logging_keeps [OF lg]
  note l2 = logging_locals [OF lg]
  from av k1 k2 have av2: "atfsep s2" by simp
  from lim clk tl lg av2 at have it: "iteration E s =
           (case takestep E zcd msl sm of Inl f \<Rightarrow> Inl f | Inr s' \<Rightarrow> Inr (Continue s'))"
    by (simp add: iteration_def)
  from k1 l2 have q2: "buffer_Qp s2 = buffer_Qp s" "instance (runtime s2) = instance (runtime s)"
    by simp_all
  from atvertex_keeps [OF at] q2 have bq: "buffer_Qp sm =
           Matrix_mat_vec E (Q_matrix (instance (runtime s))) (p_vec sm)
             (Matrix_mat_vec E (Q_matrix (instance (runtime s))) (p_vec sm) (buffer_Qp s))"
    by simp
  from at obtain g sa minidx sb s8 where
    1: "invoke Call_getGradient (Gradient_getGradient E (runtime s2)) s2 = (g, sa)"
    and 2: "invoke Call_price (Pricing_price E (runtime sa) (primal (runtime sa)) g) sa = (minidx, sb)"
    and 3: "major_direction E minidx sb = Inr s8"
    and 4: "major_steplength E s8 = (zcd, msl, sm)"
    by (rule atvertex_Continue_parts)
  note m = major_steplength_props [OF 4]
  from m have z: "zcd = (\<not> dgt (fabs (Vector_times E (p_vec sm) (buffer_Qp sm))) lit_10Em5)"
    by simp
  from k1 k2 obtain e0 where e0: "calls s2 = calls s @ e0"
    "set e0 \<subseteq> {Call_readRunHighsClock, Call_fire}"
    by auto
  from invoke_keeps [OF 1] invoke_keeps [OF 2] have cb: "calls sb = calls s2 @ [Call_getGradient, Call_price]"
    by simp
  from major_direction_calls [OF 3] obtain e1 where e1: "calls s8 = calls sb @ e1"
    "set e1 \<subseteq> {Call_btran, Call_Ztprod, Call_solveL, Call_solveLT, Call_Zprod,
                     Call_getGradient, Call_deactivate minidx}"
    by blast
  define pre where "pre = e0 @ [Call_getGradient, Call_price] @ e1"
  from e0 cb e1 have c8: "calls s8 = calls s @ pre" by (simp add: pre_def)
  from e0 e1 have npre: "Call_factor_expand \<notin> set pre" by (auto simp add: pre_def)
  show ?thesis
  proof (cases zcd)
    case True
    with m c8 have cm: "calls sm = calls s @ (pre @ [Call_redgrad_expand])" by simp
    then have fm: "fresh_calls s sm = pre @ [Call_redgrad_expand]" by (rule fresh_calls_append)
    have "Call_factor_expand \<notin> set (fresh_calls s s') \<and> Call_redgrad_expand \<in> set (fresh_calls s s')"
      if ts: "takestep E zcd msl sm = Inr s'" for s'
    proof -
      from takestep_calls [OF ts] obtain ev where ev: "calls s' = calls sm @ ev"
        "Call_factor_expand \<notin> set ev" by blast
      with cm have "calls s' = calls s @ (pre @ [Call_redgrad_expand] @ ev)" by simp
      then have "fresh_calls s s' = pre @ [Call_redgrad_expand] @ ev" by (rule fresh_calls_append)
      with ev npre show ?thesis by simp
    qed
    with True it bq z m fm npre show ?thesis by simp
  next
    case False
    with m c8 have "calls sm = calls s @ (pre @ [Call_getGradient, Call_factor_expand, Call_redgrad_expand])"
      by simp
    then have "fresh_calls s sm = pre @ [Call_getGradient, Call_factor_expand, Call_redgrad_expand]"
      by (rule fresh_calls_append)
    with False it bq z show ?thesis by simp
  qed
qed

text \<open>An instance: minimise \<open>-x\<close> over \<open>x \<ge> 0\<close> with \<open>Q = 0\<close>, started on the bound; the
  whole first pass.\<close>

theorem zero_curvature_direction_at_vertex_witness:
  "(case iteration toyE (toy_start [0] [] (Finite (- 1)) (Finite 0) 10) of
      Inr (Continue s') \<Rightarrow>
        Call_factor_expand \<notin> set (fresh_calls (toy_start [0] [] (Finite (- 1)) (Finite 0) 10) s')
        \<and> Call_redgrad_expand \<in> set (fresh_calls (toy_start [0] [] (Finite (- 1)) (Finite 0) 10) s')
    | _ \<Rightarrow> False)"
proof -
  define s where "s = toy_start [0] [] (Finite (- 1)) (Finite 0) 10"
  define t where "t = fst (invoke Call_readRunHighsClock (Timer_readRunHighsClock toyE) s)"
  define s1 where "s1 = snd (invoke Call_readRunHighsClock (Timer_readRunHighsClock toyE) s)"
  define s2 where "s2 = projr (logging toyE s1)"
  have lim: "num_iterations (statistics (runtime s)) < iterationlimit (settings (runtime s))"
    unfolding s_def by code_simp
  have clk: "invoke Call_readRunHighsClock (Timer_readRunHighsClock toyE) s = (t, s1)"
    by (simp add: t_def s1_def)
  have tl: "\<not> dge t (timelimit (settings (runtime s1)))"
    unfolding t_def s1_def s_def by code_simp
  have "\<not> isl (logging toyE s1)"
    unfolding s1_def s_def by code_simp
  then have lg: "logging toyE s1 = Inr s2"
    by (simp add: s2_def)
  have av: "atfsep s"
    unfolding s_def by code_simp
  have "case atvertex toyE s2 of
          Inr (Continue (zcd, msl, sm)) \<Rightarrow>
            zcd \<and> Vector_times toyE (p_vec sm) (buffer_Qp sm) = Finite 0
        | _ \<Rightarrow> False"
    unfolding s2_def s1_def s_def by code_simp
  then obtain msl sm where at: "atvertex toyE s2 = Inr (Continue (True, msl, sm))"
    by (auto split: sum.splits loopctl.splits)
  have "case iteration toyE s of Inr (Continue s') \<Rightarrow> True | _ \<Rightarrow> False"
    unfolding s_def by code_simp
  then obtain s' where it: "iteration toyE s = Inr (Continue s')"
    by (auto split: sum.splits loopctl.splits)
  note th = zero_curvature_direction_at_vertex [OF lim clk tl lg av at]
  from th it have ts: "takestep toyE True msl sm = Inr s'"
    by (auto split: sum.splits)
  from th ts have "Call_factor_expand \<notin> set (fresh_calls s s')
      \<and> Call_redgrad_expand \<in> set (fresh_calls s s')"
    by simp
  with it show ?thesis
    by (simp add: s_def)
qed

text \<open>C5 as stated, with the reduced gradient's \<open>expand\<close> skipped as well, fails
  on that instance: the curvature is 0, the direction is flagged, the step length is
  infinite, and the last call of the branch is \<open>redgrad.expand\<close>.\<close>

theorem reduced_gradient_expand_not_skipped:
  "(case atvertex toyE (toy_start [0] [] (Finite (- 1)) (Finite 0) 10) of
      Inr (Continue (zcd, msl, s')) \<Rightarrow>
        zcd \<and> msl = PInf \<and> Vector_times toyE (p_vec s') (buffer_Qp s') = Finite 0
        \<and> calls s' = calls (toy_start [0] [] (Finite (- 1)) (Finite 0) 10)
            @ [Call_getGradient, Call_price, Call_btran, Call_getGradient, Call_deactivate 0,
               Call_redgrad_expand]
    | _ \<Rightarrow> False)"
  by code_simp

subsection \<open>The state flag \<open>atfsep\<close>\<close>

lemma reduce_keeps:
  "reduce E n s = Inr (a, b, s') \<Longrightarrow>
     atfsep s' = atfsep s \<and> runtime s' = runtime s \<and> p_vec s' = p_vec s \<and> rowmove s' = rowmove s"
  by (auto simp add: reduce_def invoke_def Let_def split: if_splits sum.splits prod.splits)

lemma blocked_atfsep:
  assumes "blocked E zcd r s = Inr s'"
  shows "atfsep s' = (Basis_getnumactive E (coll s') = num_var (instance (runtime s')) \<and> atfsep s)"
proof -
  from assms obtain a b s1 where 1: "reduce E (limitingconstraint r) s = Inr (a, b, s1)"
    by (auto simp add: blocked_def split: sum.splits)
  from reduce_keeps [OF 1] assms 1 show ?thesis
    by (auto simp add: blocked_def Let_def invoke0_def split: if_splits)
qed

lemma unblocked_atfsep: "atfsep (unblocked E r s)"
  by (simp add: unblocked_def Let_def invoke0_def set_status_def)

lemma onface_keeps:
  assumes "onface E s = Inr s'" shows "atfsep s' = atfsep s"
proof -
  define s1 where "s1 = computesearchdirection_minor E s"
  define s2 where "s2 = s1\<lparr>rowmove := computerowmove E (runtime s1) (coll s1) (p_vec s1) (rowmove s1)\<rparr>"
  from assms have "tidyup E s2 = Inr s'"
    by (simp add: onface_def Let_def s1_def s2_def)
  from tidyup_keeps [OF this] minor_keeps [of E s] show ?thesis
    by (simp add: s2_def s1_def)
qed

lemma takestep_atfsep:
  assumes ts: "takestep E zcd msl s = Inr s'" and a: "atfsep s = a"
  shows "if dlt (Vector_norm2 E (p_vec s)) (pnorm_zero_threshold (settings (runtime s)))
            \<or> deq msl (Finite 0)
         then atfsep s'
         else (case invoke Call_ratiotest
                     (Ratiotest_ratiotest E (runtime s) (primal (runtime s)) (p_vec s)
                        (rowactivity (runtime s)) (rowmove s) msl) s of
                 (r, s1) \<Rightarrow>
                   if limitingconstraint r \<noteq> - 1
                   then (case blocked E zcd r s1 of
                           Inr sb \<Rightarrow>
                             atfsep s' =
                               (Basis_getnumactive E (coll sb) = num_var (instance (runtime sb))
                                \<and> a)
                         | Inl f \<Rightarrow> False)
                   else atfsep s')"
proof (cases "dlt (Vector_norm2 E (p_vec s)) (pnorm_zero_threshold (settings (runtime s)))
            \<or> deq msl (Finite 0)")
  case True
  with ts show ?thesis by (auto simp add: takestep_def)
next
  case False
  obtain r s1 where 1: "invoke Call_ratiotest
                     (Ratiotest_ratiotest E (runtime s) (primal (runtime s)) (p_vec s)
                        (rowactivity (runtime s)) (rowmove s) msl) s = (r, s1)"
    by (cases "invoke Call_ratiotest
                     (Ratiotest_ratiotest E (runtime s) (primal (runtime s)) (p_vec s)
                        (rowactivity (runtime s)) (rowmove s) msl) s")
  from 1 have a1: "atfsep s1 = atfsep s"
    by (auto simp add: invoke_def split: prod.splits)
  show ?thesis
  proof (cases "limitingconstraint r \<noteq> - 1")
    case True
    with ts False 1 obtain sb where b: "blocked E zcd r s1 = Inr sb"
      by (auto simp add: takestep_def split: sum.splits)
    from ts False 1 True b have "atfsep s' = atfsep sb"
      by (auto simp add: takestep_def Let_def invoke0_def)
    with blocked_atfsep [OF b] a1 a False 1 True b show ?thesis by simp
  next
    case nb: False
    with ts False 1 have "atfsep s' = atfsep (unblocked E r s1)"
      by (auto simp add: takestep_def Let_def invoke0_def)
    with unblocked_atfsep [of E r s1] False 1 nb show ?thesis by simp
  qed
qed

text \<open>
  C6, as the code has it. Before the first pass the solver is in the AtVertex state
  (\<open>atfsep\<close>) exactly when the active set has \<open>num_var\<close> indices. A pass of the loop that
  does not end it starts in state \<open>s\<close>, reads the clock, logs, runs the AtVertex branch if
  \<open>atfsep\<close> holds in \<open>s\<close> and the OnFace branch otherwise, and then the rest of the body.
  After the pass: if the direction was below the norm threshold or the maximum step
  length was zero, the state is AtVertex; if the ratio test named a blocking constraint
  and it was activated, the state is AtVertex exactly when the active set then has
  \<open>num_var\<close> indices and the pass had started in AtVertex (so it is OnFace whenever the
  size differs from \<open>num_var\<close>, and a pass that started OnFace stays OnFace); if no
  constraint blocked, the state is AtVertex. The size of the active set is not consulted
  in the first and the last case.
\<close>

theorem atfsep_after_a_pass:
  "atfsep (solve_init E x0 ra b0 rt0) =
     (Basis_getnumactive E (coll (solve_init E x0 ra b0 rt0))
        = num_var (instance (runtime (solve_init E x0 ra b0 rt0))))
   \<and> (iteration E s = Inr (Continue s') \<longrightarrow>
        (\<exists>t s1 s2 zcd msl sm.
            invoke Call_readRunHighsClock (Timer_readRunHighsClock E) s = (t, s1)
          \<and> logging E s1 = Inr s2
          \<and> (if atfsep s then atvertex E s2 = Inr (Continue (zcd, msl, sm))
              else onface E s2 = Inr sm \<and> \<not> zcd \<and> msl = Finite 1)
          \<and> takestep E zcd msl sm = Inr s'
          \<and> (if dlt (Vector_norm2 E (p_vec sm)) (pnorm_zero_threshold (settings (runtime sm)))
                 \<or> deq msl (Finite 0)
              then atfsep s'
              else (case invoke Call_ratiotest
                          (Ratiotest_ratiotest E (runtime sm) (primal (runtime sm)) (p_vec sm)
                             (rowactivity (runtime sm)) (rowmove sm) msl) sm of
                      (r, sr) \<Rightarrow>
                        if limitingconstraint r \<noteq> - 1
                        then (case blocked E zcd r sr of
                                Inr sb \<Rightarrow>
                                  atfsep s' =
                                    (Basis_getnumactive E (coll sb) = num_var (instance (runtime sb))
                                     \<and> atfsep s)
                              | Inl f \<Rightarrow> False)
                        else atfsep s'))))"
proof (intro conjI impI)
  show "atfsep (solve_init E x0 ra b0 rt0) =
     (Basis_getnumactive E (coll (solve_init E x0 ra b0 rt0))
        = num_var (instance (runtime (solve_init E x0 ra b0 rt0))))"
    by (simp add: solve_init_def Let_def split: prod.splits)
next
  assume it: "iteration E s = Inr (Continue s')"
  from it have lim: "num_iterations (statistics (runtime s)) < iterationlimit (settings (runtime s))"
    by (auto simp add: iteration_def split: if_splits)
  obtain t s1 where clk: "invoke Call_readRunHighsClock (Timer_readRunHighsClock E) s = (t, s1)"
    by (cases "invoke Call_readRunHighsClock (Timer_readRunHighsClock E) s")
  from it lim clk have nt: "\<not> dge t (timelimit (settings (runtime s1)))"
    by (auto simp add: iteration_def split: if_splits)
  from it lim clk nt obtain s2 where lg: "logging E s1 = Inr s2"
    by (auto simp add: iteration_def split: sum.splits)
  from invoke_keeps [OF clk] logging_keeps [OF lg] have a2: "atfsep s2 = atfsep s" by simp
  have "\<exists>zcd msl sm.
          (if atfsep s then atvertex E s2 = Inr (Continue (zcd, msl, sm))
           else onface E s2 = Inr sm \<and> \<not> zcd \<and> msl = Finite 1)
        \<and> takestep E zcd msl sm = Inr s' \<and> atfsep sm = atfsep s"
  proof (cases "atfsep s")
    case True
    with it lim clk nt lg a2 obtain zcd msl sm where 3: "atvertex E s2 = Inr (Continue (zcd, msl, sm))"
      and 4: "takestep E zcd msl sm = Inr s'"
      by (auto simp add: iteration_def split: sum.splits loopctl.splits)
    from atvertex_keeps [OF 3] a2 have "atfsep sm = atfsep s" by simp
    with True 3 4 show ?thesis by auto
  next
    case False
    with it lim clk nt lg a2 obtain sm where 3: "onface E s2 = Inr sm"
      and 4: "takestep E False (Finite 1) sm = Inr s'"
      by (auto simp add: iteration_def split: sum.splits)
    from onface_keeps [OF 3] a2 have "atfsep sm = atfsep s" by simp
    with False 3 4 show ?thesis by auto
  qed
  then obtain zcd msl sm where
    br: "if atfsep s then atvertex E s2 = Inr (Continue (zcd, msl, sm))
           else onface E s2 = Inr sm \<and> \<not> zcd \<and> msl = Finite 1"
    and ts: "takestep E zcd msl sm = Inr s'" and am: "atfsep sm = atfsep s"
    by blast
  from takestep_atfsep [OF ts am]
  have ch: "if dlt (Vector_norm2 E (p_vec sm)) (pnorm_zero_threshold (settings (runtime sm)))
                 \<or> deq msl (Finite 0)
              then atfsep s'
              else (case invoke Call_ratiotest
                          (Ratiotest_ratiotest E (runtime sm) (primal (runtime sm)) (p_vec sm)
                             (rowactivity (runtime sm)) (rowmove sm) msl) sm of
                      (r, sr) \<Rightarrow>
                        if limitingconstraint r \<noteq> - 1
                        then (case blocked E zcd r sr of
                                Inr sb \<Rightarrow>
                                  atfsep s' =
                                    (Basis_getnumactive E (coll sb) = num_var (instance (runtime sb))
                                     \<and> atfsep s)
                              | Inl f \<Rightarrow> False)
                        else atfsep s')" .
  from clk lg br ts ch
  show "\<exists>t s1 s2 zcd msl sm.
            invoke Call_readRunHighsClock (Timer_readRunHighsClock E) s = (t, s1)
          \<and> logging E s1 = Inr s2
          \<and> (if atfsep s then atvertex E s2 = Inr (Continue (zcd, msl, sm))
              else onface E s2 = Inr sm \<and> \<not> zcd \<and> msl = Finite 1)
          \<and> takestep E zcd msl sm = Inr s'
          \<and> (if dlt (Vector_norm2 E (p_vec sm)) (pnorm_zero_threshold (settings (runtime sm)))
                 \<or> deq msl (Finite 0)
              then atfsep s'
              else (case invoke Call_ratiotest
                          (Ratiotest_ratiotest E (runtime sm) (primal (runtime sm)) (p_vec sm)
                             (rowactivity (runtime sm)) (rowmove sm) msl) sm of
                      (r, sr) \<Rightarrow>
                        if limitingconstraint r \<noteq> - 1
                        then (case blocked E zcd r sr of
                                Inr sb \<Rightarrow>
                                  atfsep s' =
                                    (Basis_getnumactive E (coll sb) = num_var (instance (runtime sb))
                                     \<and> atfsep s)
                              | Inl f \<Rightarrow> False)
                        else atfsep s'))"
    by blast
qed

text \<open>An instance: minimise \<open>x\<close> over \<open>x \<ge> 0\<close>, started at \<open>x = 1\<close> with nothing active, so
  on a face; the whole first pass. The minor direction is \<open>-1\<close>, the bound blocks at step
  1 and is activated: the active set is full and the state stays OnFace.\<close>

theorem atfsep_after_a_pass_witness:
  "(case iteration toyE (toy_start [] [0] (Finite 1) (Finite 1) 10) of
      Inr (Continue s') \<Rightarrow>
        \<not> atfsep (toy_start [] [0] (Finite 1) (Finite 1) 10) \<and> \<not> atfsep s'
        \<and> Call_activate 0 0 \<in> set (calls s')
    | _ \<Rightarrow> False)"
proof -
  define s where "s = toy_start [] [0] (Finite 1) (Finite 1) 10"
  define s1 where "s1 = snd (invoke Call_readRunHighsClock (Timer_readRunHighsClock toyE) s)"
  define s2 where "s2 = projr (logging toyE s1)"
  define sm0 where "sm0 = projr (onface toyE s2)"
  have e: "case iteration toyE s of
      Inr (Continue s') \<Rightarrow> \<not> atfsep s \<and> Call_activate 0 0 \<in> set (calls s')
      | _ \<Rightarrow> False"
    unfolding s_def by code_simp
  then obtain s' where it: "iteration toyE s = Inr (Continue s')"
    and na: "\<not> atfsep s" and ca: "Call_activate 0 0 \<in> set (calls s')"
    by (auto split: sum.splits loopctl.splits)
  have "\<not> isl (logging toyE s1)"
    unfolding s1_def s_def by code_simp
  then have lg0: "logging toyE s1 = Inr s2"
    by (simp add: s2_def)
  have "\<not> isl (onface toyE s2)"
    unfolding s2_def s1_def s_def by code_simp
  then have of0: "onface toyE s2 = Inr sm0"
    by (simp add: sm0_def)
  have n: "\<not> (dlt (Vector_norm2 toyE (p_vec sm0)) (pnorm_zero_threshold (settings (runtime sm0)))
            \<or> deq (Finite 1) (Finite 0))"
    unfolding sm0_def s2_def s1_def s_def by code_simp
  have r: "case invoke Call_ratiotest
                     (Ratiotest_ratiotest toyE (runtime sm0) (primal (runtime sm0)) (p_vec sm0)
                        (rowactivity (runtime sm0)) (rowmove sm0) (Finite 1)) sm0 of
             (r, sr) \<Rightarrow> limitingconstraint r \<noteq> - 1"
    unfolding sm0_def s2_def s1_def s_def by code_simp
  from atfsep_after_a_pass [of toyE "toy_dense []" "toy_dense []" "toy_b0 [] [] (Finite 0)" "toy_rt 0" s s'] it
  obtain t s1' s2' zcd msl sm where
    clk: "invoke Call_readRunHighsClock (Timer_readRunHighsClock toyE) s = (t, s1')"
    and lg: "logging toyE s1' = Inr s2'"
    and br: "if atfsep s then atvertex toyE s2' = Inr (Continue (zcd, msl, sm))
              else onface toyE s2' = Inr sm \<and> \<not> zcd \<and> msl = Finite 1"
    and ch: "if dlt (Vector_norm2 toyE (p_vec sm)) (pnorm_zero_threshold (settings (runtime sm)))
                 \<or> deq msl (Finite 0)
              then atfsep s'
              else (case invoke Call_ratiotest
                          (Ratiotest_ratiotest toyE (runtime sm) (primal (runtime sm)) (p_vec sm)
                             (rowactivity (runtime sm)) (rowmove sm) msl) sm of
                      (r, sr) \<Rightarrow>
                        if limitingconstraint r \<noteq> - 1
                        then (case blocked toyE zcd r sr of
                                Inr sb \<Rightarrow>
                                  atfsep s' =
                                    (Basis_getnumactive toyE (coll sb) = num_var (instance (runtime sb))
                                     \<and> atfsep s)
                              | Inl f \<Rightarrow> False)
                        else atfsep s')"
    by blast
  from clk have "s1' = s1" by (simp add: s1_def)
  with lg lg0 have "s2' = s2" by simp
  with br na of0 have sm: "sm = sm0" "\<not> zcd" "msl = Finite 1" by simp_all
  from ch sm n r na have "\<not> atfsep s'"
    by (auto split: prod.splits sum.splits)
  with it na ca show ?thesis by (simp add: s_def)
qed

text \<open>C6 as stated fails at the top of the second pass, in both directions.
  Minimising \<open>-x\<close> from the bound: the first pass deactivates the bound and nothing
  blocks, so the second pass starts in AtVertex with no active index out of one.
  Minimising \<open>x\<close> from \<open>x = 1\<close>: the first pass activates the bound from OnFace, so the
  second pass starts in OnFace with a full active set.\<close>

theorem atfsep_not_equivalent_to_full_active_set:
  "(case iteration toyE (toy_start [0] [] (Finite (- 1)) (Finite 0) 10) of
      Inr (Continue s') \<Rightarrow>
        atfsep s' \<and> Basis_getnumactive toyE (coll s') = 0 \<and> num_var (instance (runtime s')) = 1
    | _ \<Rightarrow> False)
   \<and> (case iteration toyE (toy_start [] [0] (Finite 1) (Finite 1) 10) of
      Inr (Continue s') \<Rightarrow>
        \<not> atfsep s' \<and> Basis_getnumactive toyE (coll s') = 1 \<and> num_var (instance (runtime s')) = 1
        \<and> Call_activate 0 0 \<in> set (calls s')
    | _ \<Rightarrow> False)"
  by code_simp

subsection \<open>After the loop has ended on a limit\<close>

lemma set_value_length: "set_value v i x = Inr v' \<Longrightarrow> length (value v') = length (value v)"
  by (auto simp add: set_value_def split: if_splits)

lemma recover_duals_returns:
  "duals_in_range nc iif lambda es dv dc \<Longrightarrow> \<exists>dv' dc'. recover_duals nc iif lambda es dv dc = Inr (dv', dc')"
proof (induction es arbitrary: dv dc)
  case Nil
  then show ?case by simp
next
  case (Cons e es)
  from Cons.prems have k: "nth_chk iif e = Inr (iif ! nat e)"
    and v: "get_value lambda (iif ! nat e) = Inr (value lambda ! nat (iif ! nat e))"
    and rest: "duals_in_range nc iif lambda es dv dc"
    by (simp_all add: duals_in_range_def nth_chk_def get_value_def)
  show ?case
  proof (cases "e \<ge> nc")
    case True
    with Cons.prems obtain dv1 where
      w: "set_value dv (e - nc) (value lambda ! nat (iif ! nat e)) = Inr dv1"
      by (auto simp add: duals_in_range_def set_value_def)
    from rest have "duals_in_range nc iif lambda es dv1 dc"
      unfolding duals_in_range_def set_value_length [OF w] .
    from Cons.IH [OF this] k v w True show ?thesis by simp
  next
    case False
    with Cons.prems obtain dc1 where
      w: "set_value dc e (value lambda ! nat (iif ! nat e)) = Inr dc1"
      by (auto simp add: duals_in_range_def set_value_def)
    from rest have "duals_in_range nc iif lambda es dv dc1"
      unfolding duals_in_range_def set_value_length [OF w] .
    from Cons.IH [OF this] k v w False show ?thesis by simp
  qed
qed



lemma solve_finish_cases:
  assumes fin: "solve_finish E s = Inr s'"
    and rc: "at_recovery E s = (lambda, c)"
  obtains dv dc where
    "recover_duals (num_con (instance (runtime s))) (Basis_getindexinfactor E c) lambda
           (Basis_getactive E c) (dualvar (runtime s)) (dualcon (runtime s)) = Inr (dv, dc)"
    "dualvar (runtime s') = dv" "dualcon (runtime s') = dc"
    "status (runtime s') = status (runtime s)"
    "primal (runtime s') =
           (if Basis_getnumactive E c = num_var (instance (runtime s))
            then fst (Basis_recomputex E (instance (runtime s)) c)
            else primal (runtime s))"
proof -
  define s0 where "s0 = final_log E s"
  note k = final_log_keeps [of E s, folded s0_def]
  from rc have rc': "ReducedCosts_getReducedCosts E (runtime s0) (coll s0) = (lambda, c)"
    by (simp add: at_recovery_def s0_def)
  from fin obtain s3 where s3: "recover E s0 = Inr s3"
    and fr: "primal (runtime s') = primal (runtime s3)" "status (runtime s') = status (runtime s3)"
       "dualvar (runtime s') = dualvar (runtime s3)" "dualcon (runtime s') = dualcon (runtime s3)"
    by (auto simp add: solve_finish_def s0_def invoke_def split: sum.splits prod.splits)
  from s3 rc' k obtain dv dc where
    rd: "recover_duals (num_con (instance (runtime s))) (Basis_getindexinfactor E c) lambda
           (Basis_getactive E c) (dualvar (runtime s)) (dualcon (runtime s)) = Inr (dv, dc)"
    by (auto simp add: recover_def invoke_def split: sum.splits)
  from s3 rc' k rd have d3: "dualvar (runtime s3) = dv" "dualcon (runtime s3) = dc"
    "status (runtime s3) = status (runtime s)"
    and p3: "primal (runtime s3) =
           (if Basis_getnumactive E c = num_var (instance (runtime s))
            then fst (Basis_recomputex E (instance (runtime s)) c)
            else primal (runtime s))"
    by (auto simp add: recover_def invoke_def Let_def split: prod.splits if_splits)
  from rd d3 p3 fr that show ?thesis by simp
qed

lemma solve_finish_returns:
  assumes rc: "at_recovery E s = (lambda, c)"
    and rng: "duals_in_range (num_con (instance (runtime s))) (Basis_getindexinfactor E c) lambda
           (Basis_getactive E c) (dualvar (runtime s)) (dualcon (runtime s))"
  shows "\<exists>s'. solve_finish E s = Inr s'"
proof -
  define s0 where "s0 = final_log E s"
  note k = final_log_keeps [of E s, folded s0_def]
  from rc have rc': "ReducedCosts_getReducedCosts E (runtime s0) (coll s0) = (lambda, c)"
    by (simp add: at_recovery_def s0_def)
  from recover_duals_returns [OF rng] obtain dv dc where
    "recover_duals (num_con (instance (runtime s))) (Basis_getindexinfactor E c) lambda
           (Basis_getactive E c) (dualvar (runtime s)) (dualcon (runtime s)) = Inr (dv, dc)"
    by blast
  with rc' k have "\<exists>s3. recover E s0 = Inr s3"
    by (simp add: recover_def invoke_def Let_def split: prod.splits)
  then show ?thesis
    by (auto simp add: solve_finish_def s0_def invoke_def split: prod.splits)
qed





subsection \<open>Iteration limit 0\<close>

lemma solve_init_keeps:
  "instance (runtime (solve_init E x0 ra b0 rt0)) = instance rt0
   \<and> settings (runtime (solve_init E x0 ra b0 rt0)) = settings rt0
   \<and> num_iterations (statistics (runtime (solve_init E x0 ra b0 rt0))) = num_iterations (statistics rt0)
   \<and> status (runtime (solve_init E x0 ra b0 rt0)) = status rt0
   \<and> primal (runtime (solve_init E x0 ra b0 rt0)) = x0
   \<and> dualvar (runtime (solve_init E x0 ra b0 rt0)) = dualvar rt0
   \<and> dualcon (runtime (solve_init E x0 ra b0 rt0)) = dualcon rt0"
  by (simp add: solve_init_def Let_def split: prod.splits)

lemma solve_finish_counter:
  "solve_finish E s = Inr s' \<Longrightarrow>
     num_iterations (statistics (runtime s')) = num_iterations (statistics (runtime s))"
  by (auto simp add: solve_finish_def final_log_def loginformation_def recover_def invoke_def
        invoke0_def Let_def split: sum.splits prod.splits if_splits)

text \<open>
  C4, as the code has it. If the iteration limit is 0 (and the iteration counter of the
  Runtime has not been set below 0), and the subscripts of the dual recovery are in
  range, then \<open>solve\<close> returns, with status \<open>ITERATIONLIMIT\<close> and without having counted an
  iteration; the primal point it returns is the crash-start point \<open>x0\<close> if the active set
  has fewer or more than \<open>num_var\<close> indices, and \<open>basis.recomputex(instance)\<close> if it has
  \<open>num_var\<close>.
\<close>

theorem iteration_limit_zero:
  assumes lim0: "iterationlimit (settings rt0) = 0"
    and cnt: "0 \<le> num_iterations (statistics rt0)"
    and rc: "at_recovery E (set_status ITERATIONLIMIT (solve_init E x0 ra b0 rt0)) = (lambda, c)"
    and rng: "duals_in_range (num_con (instance rt0)) (Basis_getindexinfactor E c) lambda
                (Basis_getactive E c) (dualvar rt0) (dualcon rt0)"
  shows "\<exists>s'. solve E x0 ra b0 rt0 = Inr s'
           \<and> status (runtime s') = ITERATIONLIMIT
           \<and> num_iterations (statistics (runtime s')) = num_iterations (statistics rt0)
           \<and> primal (runtime s') =
               (if Basis_getnumactive E c = num_var (instance rt0)
                then fst (Basis_recomputex E (instance rt0) c)
                else x0)"
proof -
  define s where "s = solve_init E x0 ra b0 rt0"
  define sl where "sl = set_status ITERATIONLIMIT s"
  note k = solve_init_keeps [of E x0 ra b0 rt0, folded s_def]
  from lim0 cnt k have "iterationlimit (settings (runtime s)) \<le> num_iterations (statistics (runtime s))"
    by simp
  then have l: "loop E s = Inr sl"
    by (simp add: loop.simps iteration_def sl_def)
  from k have ksl: "instance (runtime sl) = instance rt0" "status (runtime sl) = ITERATIONLIMIT"
    "primal (runtime sl) = x0" "dualvar (runtime sl) = dualvar rt0" "dualcon (runtime sl) = dualcon rt0"
    "num_iterations (statistics (runtime sl)) = num_iterations (statistics rt0)"
    by (simp_all add: sl_def set_status_def)
  from rc have rc': "at_recovery E sl = (lambda, c)"
    by (simp add: sl_def s_def)
  from rng ksl have "duals_in_range (num_con (instance (runtime sl))) (Basis_getindexinfactor E c)
     lambda (Basis_getactive E c) (dualvar (runtime sl)) (dualcon (runtime sl))"
    by simp
  from solve_finish_returns [OF rc' this] obtain s' where fin: "solve_finish E sl = Inr s'"
    by blast
  from l fin have sv: "solve E x0 ra b0 rt0 = Inr s'"
    by (simp add: solve_def s_def)
  from fin rc' have st: "status (runtime s') = status (runtime sl)"
    by (rule solve_finish_cases)
  from fin rc' have "primal (runtime s') =
           (if Basis_getnumactive E c = num_var (instance (runtime sl))
            then fst (Basis_recomputex E (instance (runtime sl)) c)
            else primal (runtime sl))"
    by (rule solve_finish_cases)
  with st sv ksl solve_finish_counter [OF fin] show ?thesis by simp
qed

text \<open>An instance: minimise \<open>-x\<close> over \<open>x \<ge> 0\<close> from \<open>x0 = 5\<close> with nothing active.\<close>

theorem iteration_limit_zero_witness:
  "(case solve toyE (toy_dense [Finite 5]) (toy_dense []) (toy_b0 [] [0] (Finite (- 1))) (toy_rt 0) of
      Inr s' \<Rightarrow> status (runtime s') = ITERATIONLIMIT \<and> primal (runtime s') = toy_dense [Finite 5]
    | Inl f \<Rightarrow> False)"
proof -
  define c where "c = toy_b0 [] [0] (Finite (- 1))"
  have lim0: "iterationlimit (settings (toy_rt 0)) = 0" by code_simp
  have cnt: "0 \<le> num_iterations (statistics (toy_rt 0))" by code_simp
  have rc: "at_recovery toyE (set_status ITERATIONLIMIT
               (solve_init toyE (toy_dense [Finite 5]) (toy_dense []) (toy_b0 [] [0] (Finite (- 1))) (toy_rt 0)))
             = (toy_dense [Finite (- 1)], c)"
    unfolding c_def by code_simp
  have rng: "duals_in_range (num_con (instance (toy_rt 0))) (Basis_getindexinfactor toyE c)
                (toy_dense [Finite (- 1)]) (Basis_getactive toyE c) (dualvar (toy_rt 0)) (dualcon (toy_rt 0))"
    unfolding c_def by code_simp
  have e: "Basis_getnumactive toyE c \<noteq> num_var (instance (toy_rt 0))"
    unfolding c_def by code_simp
  from iteration_limit_zero [OF lim0 cnt rc rng] e show ?thesis
    by auto
qed

text \<open>C4 as stated fails for a crash start with a full active set whose point
  is not exactly what \<open>recomputex\<close> computes: here the bound is active and \<open>x0\<close> is within
  \<open>1e-9\<close> of it; the primal point returned is the recomputed \<open>0\<close>, not \<open>x0\<close>.\<close>

theorem primal_recomputed_at_iteration_limit_zero:
  "(case solve toyE (toy_dense [Finite (1 / 1000000000)]) (toy_dense [])
           (toy_b0 [0] [] (Finite (- 1))) (toy_rt 0) of
      Inr s \<Rightarrow>
        status (runtime s) = ITERATIONLIMIT
        \<and> num_iterations (statistics (runtime s)) = 0
        \<and> value (primal (runtime s)) = [Finite 0]
        \<and> primal (runtime s) \<noteq> toy_dense [Finite (1 / 1000000000)]
    | Inl f \<Rightarrow> False)"
  by code_simp

subsection \<open>An unbounded ray\<close>

text \<open>In the branch where no constraint blocks, the status is never assigned: the test
  compares the constraint index with infinity.\<close>

lemma unblocked_keeps_status: "status (runtime (unblocked E r s)) = status (runtime s)"
  by (simp add: unblocked_def double_of_HighsInt_def invoke0_def Let_def)

text \<open>So, whatever the collaborators do, the loop ends with one of three statuses, and
  \<open>solve\<close> returns with one of them: never with \<open>UNBOUNDED\<close>.\<close>

lemma iteration_Break_status:
  assumes "iteration E s = Inr (Break s')"
  shows "status (runtime s') \<in> {OPTIMAL, ITERATIONLIMIT, TIMELIMIT}"
proof (cases "iterationlimit (settings (runtime s)) \<le> num_iterations (statistics (runtime s))")
  case True
  with assms show ?thesis by (auto simp add: iteration_def set_status_def)
next
  case False
  obtain t s1 where 1: "invoke Call_readRunHighsClock (Timer_readRunHighsClock E) s = (t, s1)"
    by (cases "invoke Call_readRunHighsClock (Timer_readRunHighsClock E) s")
  show ?thesis
  proof (cases "dge t (timelimit (settings (runtime s1)))")
    case True
    with assms False 1 show ?thesis by (auto simp add: iteration_def set_status_def)
  next
    case nt: False
    from assms False 1 nt obtain s2 where 2: "logging E s1 = Inr s2"
      by (auto simp add: iteration_def split: sum.splits)
    from assms False 1 nt 2 have av: "atfsep s2" and 3: "atvertex E s2 = Inr (Break s')"
      by (auto simp add: iteration_def split: if_splits sum.splits loopctl.splits)
    from 3 show ?thesis
      by (auto simp add: atvertex_def set_status_def split: prod.splits if_splits sum.splits)
  qed
qed

lemma loop_status:
  "loop E s = Inr s' \<Longrightarrow> status (runtime s') \<in> {OPTIMAL, ITERATIONLIMIT, TIMELIMIT}"
proof (induction E s rule: loop.induct)
  case (1 E s)
  show ?case
  proof (cases "iteration E s")
    case (Inl f)
    with "1.prems" show ?thesis by (simp add: loop.simps)
  next
    case (Inr c)
    show ?thesis
    proof (cases c)
      case (Break sb)
      with Inr "1.prems" have "sb = s'" by (simp add: loop.simps)
      with Inr Break iteration_Break_status [of E s s'] show ?thesis by simp
    next
      case (Continue sc)
      with Inr "1.prems" have "loop E sc = Inr s'" by (simp add: loop.simps)
      with "1.IH" [OF Inr Continue] show ?thesis .
    qed
  qed
qed

lemma solve_finish_status:
  "solve_finish E s = Inr s' \<Longrightarrow> status (runtime s') = status (runtime s)"
  by (auto simp add: solve_finish_def final_log_def loginformation_def recover_def invoke_def
        invoke0_def Let_def split: sum.splits prod.splits if_splits)

lemma solve_status:
  assumes "solve E x0 ra b0 rt0 = Inr s'"
  shows "status (runtime s') \<in> {OPTIMAL, ITERATIONLIMIT, TIMELIMIT}"
proof -
  from assms obtain sl where l: "loop E (solve_init E x0 ra b0 rt0) = Inr sl"
    and f: "solve_finish E sl = Inr s'"
    by (auto simp add: solve_def split: sum.splits)
  from loop_status [OF l] solve_finish_status [OF f] show ?thesis by simp
qed

text \<open>
  C1 does not hold of the code. Minimise \<open>-x\<close> over \<open>x \<ge> 0\<close> with \<open>Q = 0\<close>, started on the
  bound. In the first pass the direction has zero curvature, the maximum step length is
  infinite, and the ratio test reports no blocking constraint (\<open>-1\<close>) and an infinite
  step; the status stays \<open>NOTSET\<close> and the loop goes on, with the primal point at
  infinity. The second pass finds nothing to price, and \<open>solve\<close> returns \<open>OPTIMAL\<close>.
\<close>

theorem unbounded_ray_is_not_reported:
  "(case atvertex toyE (toy_start [0] [] (Finite (- 1)) (Finite 0) 10) of
      Inr (Continue (zcd, msl, s1)) \<Rightarrow>
        zcd \<and> msl = PInf
        \<and> (case invoke Call_ratiotest
                   (Ratiotest_ratiotest toyE (runtime s1) (primal (runtime s1)) (p_vec s1)
                      (rowactivity (runtime s1)) (rowmove s1) msl) s1 of
              (r, s2) \<Rightarrow>
                limitingconstraint r = - 1 \<and> alpha r = PInf
                \<and> status (runtime (unblocked toyE r s2)) = NOTSET)
    | _ \<Rightarrow> False)
   \<and> (case iteration toyE (toy_start [0] [] (Finite (- 1)) (Finite 0) 10) of
      Inr (Continue s') \<Rightarrow>
        status (runtime s') = NOTSET \<and> atfsep s' \<and> value (primal (runtime s')) = [PInf]
    | _ \<Rightarrow> False)
   \<and> (case solve toyE (toy_dense [Finite 0]) (toy_dense []) (toy_b0 [0] [] (Finite (- 1))) (toy_rt 10) of
      Inr s \<Rightarrow>
        status (runtime s) = OPTIMAL \<and> value (primal (runtime s)) = [PInf]
        \<and> num_iterations (statistics (runtime s)) = 2
    | Inl f \<Rightarrow> False)"
  by code_simp

subsection \<open>\<open>reduce\<close>: the constraint to drop\<close>

lemma dgt_irrefl: "\<not> dgt a a"
  by (cases a) (simp_all add: dgt_def)

lemma dgt_asym: "dgt a b \<Longrightarrow> \<not> dgt b a"
  by (cases a; cases b) (simp_all add: dgt_def)

lemma not_dgt_below: "\<not> dgt a b \<Longrightarrow> dgt c b \<Longrightarrow> \<not> dgt a c"
  by (cases a; cases b; cases c) (simp_all add: dgt_def)

lemma zero_not_dgt_fabs: "\<not> dgt (fabs (Finite 0)) (fabs a)"
  by (cases a) (simp_all add: dgt_def)

lemma dgt_trans: "dgt a b \<Longrightarrow> dgt b c \<Longrightarrow> dgt a c"
  by (cases a; cases b; cases c) (simp_all add: dgt_def)

lemma reduce_loop_max:
  "reduce_loop d is m0 = Inr m \<Longrightarrow>
     (m = m0 \<or> dgt (fabs (value d ! nat m)) (fabs (value d ! nat m0)))
   \<and> (\<forall>i \<in> set is. \<exists>k. nth_chk (index d) (int i) = Inr k
          \<and> \<not> dgt (fabs (value d ! nat k)) (fabs (value d ! nat m)))"
proof (induction "is" arbitrary: m0)
  case Nil
  then show ?case by simp
next
  case (Cons i rest)
  from Cons.prems obtain k where k: "nth_chk (index d) (int i) = Inr k"
    by (auto split: sum.splits)
  from Cons.prems k obtain vk where vk: "get_value d k = Inr vk"
    by (auto split: sum.splits)
  from Cons.prems k vk obtain vm where vm: "get_value d m0 = Inr vm"
    by (auto split: sum.splits)
  from vk have vk': "vk = value d ! nat k"
    by (auto simp add: get_value_def nth_chk_def split: if_splits)
  from vm have vm': "vm = value d ! nat m0"
    by (auto simp add: get_value_def nth_chk_def split: if_splits)
  show ?case
  proof (cases "dgt (fabs vk) (fabs vm)")
    case True
    with Cons.prems k vk vm have r: "reduce_loop d rest k = Inr m"
      by simp
    from Cons.IH [OF r] have a: "m = k \<or> dgt (fabs (value d ! nat m)) (fabs (value d ! nat k))"
      and b: "\<forall>i \<in> set rest. \<exists>k. nth_chk (index d) (int i) = Inr k
          \<and> \<not> dgt (fabs (value d ! nat k)) (fabs (value d ! nat m))"
      by simp_all
    from a True have 1: "dgt (fabs (value d ! nat m)) (fabs (value d ! nat m0))"
      by (auto simp add: vk' vm' intro: dgt_trans)
    from a have 2: "\<not> dgt (fabs (value d ! nat k)) (fabs (value d ! nat m))"
      by (auto simp add: dgt_irrefl dest: dgt_asym)
    from 1 2 b k show ?thesis by simp
  next
    case False
    with Cons.prems k vk vm have r: "reduce_loop d rest m0 = Inr m"
      by simp
    from Cons.IH [OF r] have a: "m = m0 \<or> dgt (fabs (value d ! nat m)) (fabs (value d ! nat m0))"
      and b: "\<forall>i \<in> set rest. \<exists>k. nth_chk (index d) (int i) = Inr k
          \<and> \<not> dgt (fabs (value d ! nat k)) (fabs (value d ! nat m))"
      by simp_all
    from a False have 2: "\<not> dgt (fabs (value d ! nat k)) (fabs (value d ! nat m))"
      by (auto simp add: vk' vm' dest: not_dgt_below)
    from a 2 b k show ?thesis by simp
  qed
qed

lemma reduce_loop_is_maxabs:
  assumes lp: "reduce_loop d [0 ..< nat (num_nz d)] 0 = Inr m"
    and v: "get_value d m = Inr v"
    and sp: "sparse_ok d"
  shows "is_maxabs d m"
proof -
  from v have rng: "0 \<le> m" "m < int (length (value d))"
    by (auto simp add: get_value_def nth_chk_def split: if_splits)
  note mx = reduce_loop_max [OF lp]
  have "\<not> dgt (fabs (value d ! j)) (fabs (value d ! nat m))" if j: "j < length (value d)" for j
  proof (cases "int j \<in> set (take (nat (num_nz d)) (index d))")
    case True
    then obtain i where i: "i < length (take (nat (num_nz d)) (index d))"
      and ij: "take (nat (num_nz d)) (index d) ! i = int j"
      by (auto simp add: in_set_conv_nth)
    from i have i1: "i < nat (num_nz d)" and i2: "i < length (index d)" by simp_all
    from ij i1 have ix: "index d ! i = int j" by simp
    from i1 have "i \<in> set [0 ..< nat (num_nz d)]" by simp
    with mx obtain k where k: "nth_chk (index d) (int i) = Inr k"
      and kk: "\<not> dgt (fabs (value d ! nat k)) (fabs (value d ! nat m))"
      by blast
    from k ix have "k = int j"
      by (auto simp add: nth_chk_def split: if_splits)
    with kk show ?thesis by simp
  next
    case False
    with sp j have "value d ! j = Finite 0"
      by (auto simp add: sparse_ok_def list_all_iff)
    with zero_not_dgt_fabs [of "value d ! nat m"] show ?thesis by simp
  qed
  then have "list_all (\<lambda>v. \<not> dgt (fabs v) (fabs (value d ! nat m))) (value d)"
    by (auto simp add: list_all_iff in_set_conv_nth)
  with rng show ?thesis by (simp add: is_maxabs_def)
qed

text \<open>
  C7. In \<open>reduce\<close>, called to activate the constraint \<open>newactivecon\<close>:

  \<^item> if \<open>indexof\<close> finds the constraint among the inactive indices, at position \<open>idx\<close>, then
    \<open>d\<close> is the unit vector of \<open>idx\<close>, position \<open>idx\<close> holds its component of maximum
    magnitude, and the constraint to drop is the inactive index at that position, the
    entering constraint itself;
  \<^item> if it is not among them, \<open>maxabsd\<close> is a position of a component of maximum
    magnitude of the direction \<open>d\<close> that \<open>Ztprod\<close> computed; if that magnitude is below
    \<open>d_zero_threshold\<close> the process exits (\<open>exit(1)\<close>: no state and no status is returned),
    and otherwise the constraint to drop is \<open>inactive[maxabsd]\<close>.

  What is taken of the code that is not in solver.cpp: \<open>indexof\<close> returns \<open>-1\<close> or a
  position holding the element; \<open>Vector::unit\<close> yields a unit vector; the vector \<open>Ztprod\<close>
  yields keeps the invariant of sparse vectors; and the subscripts are in range.
\<close>

theorem reduce_exits_or_drops_maxabs:
  "(indexof E (Basis_getinactive E (coll s)) newactivecon = idx \<longrightarrow> idx \<noteq> - 1 \<longrightarrow>
      nth_chk (Basis_getinactive E (coll s)) idx = Inr newactivecon \<longrightarrow>
      value (Vector_unit E (int (length (Basis_getinactive E (coll s)))) idx (buffer_d s))
        = (replicate n (Finite 0))[nat idx := Finite 1] \<longrightarrow> nat idx < n \<longrightarrow>
        (\<exists>s'. reduce E newactivecon s = Inr (idx, newactivecon, s')
              \<and> is_maxabs (buffer_d s') idx))
   \<and> (indexof E (Basis_getinactive E (coll s)) newactivecon = - 1 \<longrightarrow>
      invoke Call_Ztprod
        (Basis_Ztprod E (runtime s)
           (MatrixBase_extractcol E (Matrix_t E (A_matrix (instance (runtime s)))) newactivecon)
           (buffer_d s) True newactivecon) s = (d, s1) \<longrightarrow>
      sparse_ok d \<longrightarrow>
      reduce_loop d [0 ..< nat (num_nz d)] 0 = Inr maxabsd \<longrightarrow>
      nth_chk (Basis_getinactive E (coll s1)) maxabsd = Inr constrainttodrop \<longrightarrow>
      get_value d maxabsd = Inr v \<longrightarrow>
        is_maxabs d maxabsd
        \<and> reduce E newactivecon s =
            (if dlt (fabs v) (d_zero_threshold (settings (runtime s))) then Inl Exit1
             else Inr (maxabsd, constrainttodrop, s1\<lparr>buffer_d := d\<rparr>)))"
proof (intro conjI impI)
  assume ix: "indexof E (Basis_getinactive E (coll s)) newactivecon = idx" "idx \<noteq> - 1"
    and iv: "nth_chk (Basis_getinactive E (coll s)) idx = Inr newactivecon"
    and u: "value (Vector_unit E (int (length (Basis_getinactive E (coll s)))) idx (buffer_d s))
        = (replicate n (Finite 0))[nat idx := Finite 1]"
    and n: "nat idx < n"
  define s' where "s' = s\<lparr>buffer_d := Vector_unit E (int (length (Basis_getinactive E (coll s)))) idx (buffer_d s)\<rparr>"
  from ix have r: "reduce E newactivecon s = Inr (idx, newactivecon, s')"
    by (simp add: reduce_def s'_def)
  from iv have i0: "0 \<le> idx"
    by (auto simp add: nth_chk_def split: if_splits)
  have "list_all (\<lambda>v. \<not> dgt (fabs v) (fabs (Finite 1))) ((replicate n (Finite 0))[nat idx := Finite 1])"
    by (auto simp add: list_all_iff dgt_def dest!: set_update_subset_insert [THEN subsetD])
  with u n i0 have "is_maxabs (buffer_d s') idx"
    by (simp add: is_maxabs_def s'_def)
  with r show "\<exists>s'. reduce E newactivecon s = Inr (idx, newactivecon, s') \<and> is_maxabs (buffer_d s') idx"
    by blast
next
  assume ix: "indexof E (Basis_getinactive E (coll s)) newactivecon = - 1"
    and z: "invoke Call_Ztprod
        (Basis_Ztprod E (runtime s)
           (MatrixBase_extractcol E (Matrix_t E (A_matrix (instance (runtime s)))) newactivecon)
           (buffer_d s) True newactivecon) s = (d, s1)"
    and sp: "sparse_ok d"
    and lp: "reduce_loop d [0 ..< nat (num_nz d)] 0 = Inr maxabsd"
    and cd: "nth_chk (Basis_getinactive E (coll s1)) maxabsd = Inr constrainttodrop"
    and v: "get_value d maxabsd = Inr v"
  from lp v sp show "is_maxabs d maxabsd"
    by (rule reduce_loop_is_maxabs)
  from z have "runtime s1 = runtime s"
    by (auto simp add: invoke_def split: prod.splits)
  with ix z lp cd v show "reduce E newactivecon s =
            (if dlt (fabs v) (d_zero_threshold (settings (runtime s))) then Inl Exit1
             else Inr (maxabsd, constrainttodrop, s1\<lparr>buffer_d := d\<rparr>))"
    by (simp add: reduce_def Let_def)
qed


text \<open>Instances: the bound re-entering on the face of \<open>toy_onface\<close>; and the row
  \<open>3 x0 - 5 x1\<close> entering against the two inactive bounds, with pivot thresholds \<open>1e-6\<close>
  (the bound of \<open>x1\<close>, index 2, is dropped) and \<open>10\<close> (the process exits).\<close>

theorem reduce_exits_or_drops_maxabs_witness:
  "(case reduce toyE 0 toy_onface of
      Inr (m, c, s') \<Rightarrow> m = 0 \<and> c = 0 \<and> is_maxabs (buffer_d s') 0
    | Inl f \<Rightarrow> False)
   \<and> (case reduce toyE_rows 0 (toy_two (Finite (1 / 1000000))) of
      Inr (m, c, s') \<Rightarrow> m = 1 \<and> c = 2 \<and> buffer_d s' = toy_dense [Finite 3, Finite (- 5)]
    | Inl f \<Rightarrow> False)
   \<and> is_maxabs (toy_dense [Finite 3, Finite (- 5)]) 1
   \<and> reduce toyE_rows 0 (toy_two (Finite 10)) = Inl Exit1"
proof -
  have a1: "indexof toyE (Basis_getinactive toyE (coll toy_onface)) 0 = 0"
    unfolding toy_onface_def by code_simp
  have a2: "nth_chk (Basis_getinactive toyE (coll toy_onface)) 0 = Inr 0"
    unfolding toy_onface_def by code_simp
  have a3: "value (Vector_unit toyE (int (length (Basis_getinactive toyE (coll toy_onface)))) 0
               (buffer_d toy_onface)) = (replicate 1 (Finite 0))[nat 0 := Finite 1]"
    unfolding toy_onface_def by code_simp
  from reduce_exits_or_drops_maxabs [of toyE toy_onface 0 0 1] a1 a2 a3
  have A: "\<exists>s'. reduce toyE 0 toy_onface = Inr (0, 0, s') \<and> is_maxabs (buffer_d s') 0"
    by simp
  define d where "d = toy_dense [Finite 3, Finite (- 5)]"
  have b3: "sparse_ok d" unfolding d_def by code_simp
  have b4: "reduce_loop d [0 ..< nat (num_nz d)] 0 = Inr 1" unfolding d_def by code_simp
  have b6: "get_value d 1 = Inr (Finite (- 5))" unfolding d_def by code_simp
  define sa where "sa = toy_two (Finite (1 / 1000000))"
  define sa1 where "sa1 = snd (invoke Call_Ztprod
        (Basis_Ztprod toyE_rows (runtime sa)
           (MatrixBase_extractcol toyE_rows (Matrix_t toyE_rows (A_matrix (instance (runtime sa)))) 0)
           (buffer_d sa) True 0) sa)"
  have b1: "indexof toyE_rows (Basis_getinactive toyE_rows (coll sa)) 0 = - 1"
    unfolding sa_def by code_simp
  have "fst (invoke Call_Ztprod
        (Basis_Ztprod toyE_rows (runtime sa)
           (MatrixBase_extractcol toyE_rows (Matrix_t toyE_rows (A_matrix (instance (runtime sa)))) 0)
           (buffer_d sa) True 0) sa) = d"
    unfolding d_def sa_def by code_simp
  then have b2: "invoke Call_Ztprod
        (Basis_Ztprod toyE_rows (runtime sa)
           (MatrixBase_extractcol toyE_rows (Matrix_t toyE_rows (A_matrix (instance (runtime sa)))) 0)
           (buffer_d sa) True 0) sa = (d, sa1)"
    by (simp add: sa1_def prod_eq_iff)
  have b5: "nth_chk (Basis_getinactive toyE_rows (coll sa1)) 1 = Inr 2"
    unfolding sa1_def sa_def by code_simp
  have t1: "\<not> dlt (fabs (Finite (- 5))) (d_zero_threshold (settings (runtime sa)))"
    unfolding sa_def by code_simp
  from reduce_exits_or_drops_maxabs [of toyE_rows sa 0 0 0 d sa1 1 2 "Finite (- 5)"]
  have "is_maxabs d 1
        \<and> reduce toyE_rows 0 sa =
            (if dlt (fabs (Finite (- 5))) (d_zero_threshold (settings (runtime sa))) then Inl Exit1
             else Inr (1, 2, sa1\<lparr>buffer_d := d\<rparr>))"
    using b1 b2 b3 b4 b5 b6 by blast
  with t1 have B: "is_maxabs d 1" "reduce toyE_rows 0 sa = Inr (1, 2, sa1\<lparr>buffer_d := d\<rparr>)"
    by simp_all
  define sb where "sb = toy_two (Finite 10)"
  define sb1 where "sb1 = snd (invoke Call_Ztprod
        (Basis_Ztprod toyE_rows (runtime sb)
           (MatrixBase_extractcol toyE_rows (Matrix_t toyE_rows (A_matrix (instance (runtime sb)))) 0)
           (buffer_d sb) True 0) sb)"
  have c1: "indexof toyE_rows (Basis_getinactive toyE_rows (coll sb)) 0 = - 1"
    unfolding sb_def by code_simp
  have "fst (invoke Call_Ztprod
        (Basis_Ztprod toyE_rows (runtime sb)
           (MatrixBase_extractcol toyE_rows (Matrix_t toyE_rows (A_matrix (instance (runtime sb)))) 0)
           (buffer_d sb) True 0) sb) = d"
    unfolding d_def sb_def by code_simp
  then have c2: "invoke Call_Ztprod
        (Basis_Ztprod toyE_rows (runtime sb)
           (MatrixBase_extractcol toyE_rows (Matrix_t toyE_rows (A_matrix (instance (runtime sb)))) 0)
           (buffer_d sb) True 0) sb = (d, sb1)"
    by (simp add: sb1_def prod_eq_iff)
  have c5: "nth_chk (Basis_getinactive toyE_rows (coll sb1)) 1 = Inr 2"
    unfolding sb1_def sb_def by code_simp
  have t2: "dlt (fabs (Finite (- 5))) (d_zero_threshold (settings (runtime sb)))"
    unfolding sb_def by code_simp
  from reduce_exits_or_drops_maxabs [of toyE_rows sb 0 0 0 d sb1 1 2 "Finite (- 5)"]
  have "reduce toyE_rows 0 sb =
            (if dlt (fabs (Finite (- 5))) (d_zero_threshold (settings (runtime sb))) then Inl Exit1
             else Inr (1, 2, sb1\<lparr>buffer_d := d\<rparr>))"
    using c1 c2 b3 b4 c5 b6 by blast
  with t2 have C: "reduce toyE_rows 0 sb = Inl Exit1"
    by simp
  from A have A': "case reduce toyE 0 toy_onface of
      Inr (m, c, s') \<Rightarrow> m = 0 \<and> c = 0 \<and> is_maxabs (buffer_d s') 0
    | Inl f \<Rightarrow> False"
    by auto
  from B have B': "case reduce toyE_rows 0 sa of
      Inr (m, c, s') \<Rightarrow> m = 1 \<and> c = 2 \<and> buffer_d s' = d
    | Inl f \<Rightarrow> False"
    by simp
  from A' B' B(1) C show ?thesis
    unfolding sa_def sb_def d_def by blast
qed

end
